theory Spec2Isabelle
  imports Complex_Main
begin

section \<open>Asset locator and completeness verifier (\<open>app.py\<close>)\<close>

text \<open>
  Paths are Python strings. The storage snapshot consulted by \<open>Path(p).exists()\<close> is the
  set of paths that exist at call time.
\<close>

type_synonym path = string

text \<open>
  A value of the \<open>missing_files\<close> dictionary: the code stores a list of paths under
  \<open>'variations'\<close> and \<open>'expressions'\<close>, and the bare string \<open>str(personality_path)\<close>
  under \<open>'personality'\<close>. An avatar identity is the stem of a file name and holds no
  slash, so that \<open>str(Path(p))\<close> is \<open>p\<close> itself for the paths built here.
\<close>

datatype missing_entry = PathList "path list" | PathStr path

definition variation_files :: "string \<Rightarrow> path list" where
  "variation_files image_uuid =
     [''generated/avatars/'' @ image_uuid @ ''_variation_1.png'',
      ''generated/avatars/'' @ image_uuid @ ''_variation_2.png'',
      ''generated/avatars/'' @ image_uuid @ ''_variation_3.png'',
      ''generated/avatars/'' @ image_uuid @ ''_variation_4.png'']"

definition expression_files :: "string \<Rightarrow> path list" where
  "expression_files image_uuid =
     [''generated/expressions/'' @ image_uuid @ ''_happy.mp4'',
      ''generated/expressions/'' @ image_uuid @ ''_sad.mp4'',
      ''generated/expressions/'' @ image_uuid @ ''_surprised.mp4'']"

definition personality_file :: "string \<Rightarrow> path" where
  "personality_file image_uuid = ''generated/personality/'' @ image_uuid @ ''_personality.json''"

text \<open>
  Python's \<open>int(x)\<close> on a float truncates towards zero. The quotient
  \<open>completed_categories / total_categories\<close> is a float division; on the four values
  that can occur (0/3, 1/3, 2/3, 3/3) the double result times 100 lies within \<open>10\<^sup>-\<^sup>1\<^sup>3\<close>
  of the exact value, and the exact values 0, 33.3.., 66.6.., 100 are either integers that
  doubles represent exactly or far from an integer, so truncating the exact quotient gives
  the same integer as truncating the double.
\<close>

definition py_int :: "real \<Rightarrow> int" where
  "py_int x = (if 0 \<le> x then \<lfloor>x\<rfloor> else \<lceil>x\<rceil>)"

text \<open>
  \<open>check_preparation_completeness(image_uuid, original_image_path)\<close>. The dictionary
  \<open>missing_files\<close> is an association list in insertion order; \<open>len(missing_files)\<close> is its
  length (each key is inserted at most once).
\<close>

definition check_preparation_completeness ::
  "path set \<Rightarrow> string \<Rightarrow> path \<Rightarrow> (string \<times> missing_entry) list \<times> int" where
  "check_preparation_completeness fs image_uuid original_image_path =
     (let missing_variations = filter (\<lambda>p. p \<notin> fs) (variation_files image_uuid);
          missing_files0 =
            (if missing_variations \<noteq> [] then [(''variations'', PathList missing_variations)]
             else []);
          missing_expressions = filter (\<lambda>p. p \<notin> fs) (expression_files image_uuid);
          missing_files1 =
            (if missing_expressions \<noteq> []
             then missing_files0 @ [(''expressions'', PathList missing_expressions)]
             else missing_files0);
          missing_files =
            (if personality_file image_uuid \<notin> fs
             then missing_files1 @ [(''personality'', PathStr (personality_file image_uuid))]
             else missing_files1);
          total_categories = 3;
          completed_categories = total_categories - int (length missing_files);
          completion_percentage =
            py_int ((real_of_int completed_categories / real_of_int total_categories) * 100)
      in (missing_files, completion_percentage))"


section \<open>Values exchanged with the services\<close>

text \<open>
  A Python exception; the tag names the place that raised it. Message texts are not
  modelled.
\<close>

datatype exn = Exception string

text \<open>
  A JSON value as \<open>json.loads\<close> produces it. A dictionary is an association list with
  distinct keys, looked up with \<open>map_of\<close>. A float is carried as the number it denotes
  and is never computed with.
\<close>

datatype json =
    JNull
  | JBool bool
  | JInt int
  | JFloat real
  | JStr string
  | JList "json list"
  | JDict "(string \<times> json) list"

section \<open>Personality validation (\<open>services/chat_service.py\<close>)\<close>

text \<open>
  \<open>ChatService._validate_personality_data(data)\<close>. Python's built-in \<open>str\<close> is the
  parameter \<open>py_str\<close>. Writing an existing key of \<open>validated\<close> keeps the key's position.
\<close>

definition validate_personality_data :: "(json \<Rightarrow> string) \<Rightarrow> json \<Rightarrow> json" where
  "validate_personality_data py_str data =
     (let validated_personality = [];
          validated_habits = [];
          validated_voice_tone = ''friendly''
      in case data of
           JDict d \<Rightarrow>
             (let validated_personality =
                    (case map_of d ''personality'' of
                       Some (JList traits) \<Rightarrow> map (\<lambda>trait. py_str trait) (take 5 traits)
                     | _ \<Rightarrow> validated_personality);
                  validated_habits =
                    (case map_of d ''habits'' of
                       Some (JList hs) \<Rightarrow> map (\<lambda>habit. py_str habit) (take 3 hs)
                     | _ \<Rightarrow> validated_habits);
                  validated_voice_tone =
                    (case map_of d ''voice_tone'' of
                       Some (JStr t) \<Rightarrow> t
                     | _ \<Rightarrow> validated_voice_tone)
              in JDict [(''personality'', JList (map JStr validated_personality)),
                        (''habits'', JList (map JStr validated_habits)),
                        (''voice_tone'', JStr validated_voice_tone)])
         | _ \<Rightarrow>
             JDict [(''personality'', JList (map JStr validated_personality)),
                    (''habits'', JList (map JStr validated_habits)),
                    (''voice_tone'', JStr validated_voice_tone)])"

text \<open>The two list fields and the string field of the validated profile, read off the input.\<close>

definition list_field :: "(json \<Rightarrow> string) \<Rightarrow> nat \<Rightarrow> string \<Rightarrow> json \<Rightarrow> string list" where
  "list_field py_str n k data =
     (case data of
        JDict d \<Rightarrow> (case map_of d k of Some (JList xs) \<Rightarrow> map py_str (take n xs) | _ \<Rightarrow> [])
      | _ \<Rightarrow> [])"

definition str_field :: "string \<Rightarrow> string \<Rightarrow> json \<Rightarrow> string" where
  "str_field dflt k data =
     (case data of
        JDict d \<Rightarrow> (case map_of d k of Some (JStr t) \<Rightarrow> t | _ \<Rightarrow> dflt)
      | _ \<Rightarrow> dflt)"

section \<open>Cartoon variations (\<open>services/image_service.py\<close>)\<close>

text \<open>Decimal rendering of a natural number, as an f-string renders \<open>{i+1}\<close>.\<close>

function str_nat :: "nat \<Rightarrow> string" where
  "str_nat n =
     (if n < 10 then [''0123456789'' ! n]
      else str_nat (n div 10) @ [''0123456789'' ! (n mod 10)])"
  by pat_completeness auto
termination
  by (relation "measure id") auto

declare str_nat.simps [simp del]

text \<open>
  The remote image-editing service as one call of \<open>_call_wanx_image_edit_async\<close> sees it.
  A field that is \<open>False\<close> (or \<open>None\<close>) stands for the non-OK answer or the exception of
  that step.
\<close>

datatype task_status = SUCCEEDED | FAILED | PENDING | RUNNING | UnknownStatus

record wanx_task =
  submit_ok :: bool
  fetch_status :: "nat \<Rightarrow> (bool \<times> task_status)"
  result_url :: "string option"
  download_ok :: bool
  write_ok :: bool

text \<open>
  The polling loop of \<open>_call_wanx_image_edit_async\<close>: \<open>max_wait_time = 300\<close>,
  \<open>check_interval = 10\<close>; the \<open>k\<close>-th fetch answers \<open>fetch_status k\<close>. The result is the
  value of \<open>waited_time\<close> when the loop is left, or the exception raised inside it.
\<close>

function poll_task :: "(nat \<Rightarrow> (bool \<times> task_status)) \<Rightarrow> nat \<Rightarrow> exn + nat" where
  "poll_task fetch waited_time =
     (if waited_time < 300 then
        (case fetch (waited_time div 10) of
           (False, _) \<Rightarrow> Inl (Exception ''fetch failed'')
         | (True, SUCCEEDED) \<Rightarrow> Inr waited_time
         | (True, FAILED) \<Rightarrow> Inl (Exception ''task failed'')
         | (True, PENDING) \<Rightarrow> poll_task fetch (waited_time + 10)
         | (True, RUNNING) \<Rightarrow> poll_task fetch (waited_time + 10)
         | (True, UnknownStatus) \<Rightarrow> Inl (Exception ''unknown task status''))
      else Inr waited_time)"
  by pat_completeness auto
termination
  by (relation "measure (\<lambda>(fetch, waited_time). 300 - waited_time)") auto

declare poll_task.simps [simp del]

definition call_wanx_image_edit_async ::
  "wanx_task \<Rightarrow> path \<Rightarrow> string \<Rightarrow> string \<Rightarrow> string \<Rightarrow> exn + path" where
  "call_wanx_image_edit_async task image_path prompt image_uuid variation_name =
     (if \<not> submit_ok task then Inl (Exception ''async call failed'')
      else (case poll_task (fetch_status task) 0 of
              Inl e \<Rightarrow> Inl e
            | Inr waited_time \<Rightarrow>
                (if waited_time \<ge> 300 then Inl (Exception ''task timeout'')
                 else (case result_url task of
                         None \<Rightarrow> Inl (Exception ''empty result'')
                       | Some image_url \<Rightarrow>
                           (if \<not> download_ok task then Inl (Exception ''download failed'')
                            else if \<not> write_ok task then Inl (Exception ''write failed'')
                            else Inr (''generated/avatars/'' @ image_uuid @ ''_''
                                      @ variation_name @ ''.png''))))))"

text \<open>
  \<open>_create_placeholder_image(image_uuid, name)\<close>: the path of the placeholder when drawing
  and saving it succeeds, the empty string when anything in it raises.
\<close>

definition create_placeholder_image :: "bool \<Rightarrow> string \<Rightarrow> string \<Rightarrow> path" where
  "create_placeholder_image save_ok image_uuid name =
     (if save_ok then ''generated/avatars/'' @ image_uuid @ ''_'' @ name @ ''.png''
      else '''')"

text \<open>
  The image service as \<open>generate_cartoon_variations\<close> uses it: the configured prompts, the
  remote task behind each variation name, and whether the placeholder of a given name can
  be saved.
\<close>

record image_service =
  cartoon_prompts :: "string list"
  wanx :: "string \<Rightarrow> wanx_task"
  placeholder_save_ok :: "string \<Rightarrow> bool"

text \<open>
  The body of the loop \<open>for i, prompt in enumerate(cartoon_prompts[:4])\<close>: the path of
  variation \<open>i+1\<close>, or what \<open>_create_placeholder_image\<close> returns when the call raised.
\<close>

definition generate_one_variation ::
  "image_service \<Rightarrow> path \<Rightarrow> string \<Rightarrow> nat \<Rightarrow> string \<Rightarrow> path" where
  "generate_one_variation svc image_path image_uuid i prompt =
     (case call_wanx_image_edit_async (wanx svc (''variation_'' @ str_nat (i + 1)))
             image_path prompt image_uuid (''variation_'' @ str_nat (i + 1)) of
        Inr result_path \<Rightarrow> result_path
      | Inl e \<Rightarrow>
          create_placeholder_image
            (placeholder_save_ok svc (''variation_'' @ str_nat (i + 1) @ ''_placeholder''))
            image_uuid (''variation_'' @ str_nat (i + 1) @ ''_placeholder''))"

text \<open>The loop itself, with \<open>generated_paths\<close> as accumulator.\<close>

fun variations_loop ::
  "image_service \<Rightarrow> path \<Rightarrow> string \<Rightarrow> nat \<Rightarrow> string list \<Rightarrow> path list \<Rightarrow> path list" where
  "variations_loop svc image_path image_uuid i [] generated_paths = generated_paths"
| "variations_loop svc image_path image_uuid i (prompt # prompts) generated_paths =
     variations_loop svc image_path image_uuid (i + 1) prompts
       (generated_paths @ [generate_one_variation svc image_path image_uuid i prompt])"

definition generate_cartoon_variations ::
  "image_service \<Rightarrow> path \<Rightarrow> string \<Rightarrow> exn + path list" where
  "generate_cartoon_variations svc image_path image_uuid =
     (if length (cartoon_prompts svc) < 4 then Inl (Exception ''ValueError'')
      else Inr (variations_loop svc image_path image_uuid 0 (take 4 (cartoon_prompts svc)) []))"


section \<open>Concrete services used in examples\<close>

text \<open>
  An image service with five prompts: variation 1 is pending twice and then succeeds,
  variation 2 keeps running until the 300 second limit and its placeholder can be saved,
  variations 3 and 4 cannot be submitted and their placeholders cannot be saved.
\<close>

definition example_image_service :: image_service where
  "example_image_service =
     \<lparr>cartoon_prompts = [''a'', ''b'', ''c'', ''d'', ''e''],
      wanx = (\<lambda>name.
        if name = ''variation_1'' then
          \<lparr>submit_ok = True,
           fetch_status = (\<lambda>k. (True, if k < 2 then PENDING else SUCCEEDED)),
           result_url = Some ''http://x/1.png'', download_ok = True, write_ok = True\<rparr>
        else if name = ''variation_2'' then
          \<lparr>submit_ok = True, fetch_status = (\<lambda>k. (True, RUNNING)),
           result_url = Some ''http://x/2.png'', download_ok = True, write_ok = True\<rparr>
        else
          \<lparr>submit_ok = False, fetch_status = (\<lambda>k. (True, FAILED)),
           result_url = None, download_ok = False, write_ok = False\<rparr>),
      placeholder_save_ok = (\<lambda>name. name = ''variation_2_placeholder'')\<rparr>"

text \<open>An image service with four prompts whose remote tasks all succeed at the first fetch.\<close>

definition working_image_service :: image_service where
  "working_image_service =
     \<lparr>cartoon_prompts = [''a'', ''b'', ''c'', ''d''],
      wanx = (\<lambda>name.
          \<lparr>submit_ok = True, fetch_status = (\<lambda>k. (True, SUCCEEDED)),
           result_url = Some ''http://x/v.png'', download_ok = True, write_ok = True\<rparr>),
      placeholder_save_ok = (\<lambda>name. True)\<rparr>"

section \<open>Auto-repair orchestrator (\<open>app.py\<close>)\<close>

text \<open>
  The default profile that \<open>app.py\<close> writes out as a literal wherever personality
  generation fails. Its seven Chinese strings are given by their UTF-8 bytes; only their
  identity matters.
\<close>

definition default_personality :: json where
  "default_personality =
     JDict
       [(''personality'',
         JList
           [JStr [CHR 0xE5, CHR 0x8F, CHR 0x8B, CHR 0xE5, CHR 0x96, CHR 0x84, CHR 0xE7,
            CHR 0x83, CHR 0xAD, CHR 0xE6, CHR 0x83, CHR 0x85],
            JStr [CHR 0xE4, CHR 0xB9, CHR 0x90, CHR 0xE4, CHR 0xBA, CHR 0x8E, CHR 0xE5,
            CHR 0x8A, CHR 0xA9, CHR 0xE4, CHR 0xBA, CHR 0xBA],
            JStr [CHR 0xE5, CHR 0x85, CHR 0x85, CHR 0xE6, CHR 0xBB, CHR 0xA1, CHR 0xE5,
            CHR 0xA5, CHR 0xBD, CHR 0xE5, CHR 0xA5, CHR 0x87, CHR 0xE5, CHR 0xBF,
            CHR 0x83],
            JStr [CHR 0xE7, CHR 0xA7, CHR 0xAF, CHR 0xE6, CHR 0x9E, CHR 0x81, CHR 0xE4,
            CHR 0xB9, CHR 0x90, CHR 0xE8, CHR 0xA7, CHR 0x82]]),
        (''habits'',
         JList
           [JStr [CHR 0xE5, CHR 0x96, CHR 0x9C, CHR 0xE6, CHR 0xAC, CHR 0xA2, CHR 0xE5,
            CHR 0xAD, CHR 0xA6, CHR 0xE4, CHR 0xB9, CHR 0xA0, CHR 0xE6, CHR 0x96,
            CHR 0xB0, CHR 0xE7, CHR 0x9F, CHR 0xA5, CHR 0xE8, CHR 0xAF, CHR 0x86],
            JStr [CHR 0xE7, CHR 0xBB, CHR 0x8F, CHR 0xE5, CHR 0xB8, CHR 0xB8, CHR 0xE4,
            CHR 0xB8, CHR 0xBA, CHR 0xE6, CHR 0x9C, CHR 0x8B, CHR 0xE5, CHR 0x8F,
            CHR 0x8B, CHR 0xE7, CHR 0x9D, CHR 0x80, CHR 0xE6, CHR 0x83, CHR 0xB3]]),
        (''voice_tone'',
         JStr [CHR 0xE6, CHR 0xB8, CHR 0xA9, CHR 0xE5, CHR 0x92, CHR 0x8C])]"

text \<open>
  The generators as \<open>app.py\<close> calls them on \<open>image_service\<close> and \<open>chat_service\<close>. Every call
  site wraps the call in \<open>try/except Exception\<close>, so a call either returns (\<open>Inr\<close>) or
  raises (\<open>Inl\<close>). \<open>generate_cartoon_variations\<close> above is one possible
  \<open>svc_generate_cartoon_variations\<close>.
\<close>

record services =
  svc_segment_image :: "path \<Rightarrow> exn + path"
  svc_generate_cartoon_variations :: "path \<Rightarrow> string \<Rightarrow> exn + path list"
  svc_generate_expressions :: "path \<Rightarrow> string \<Rightarrow> exn + (string \<times> path) list"
  svc_generate_personality :: "path \<Rightarrow> string \<Rightarrow> exn + json"

text \<open>A generator call that was made (whether it returned or raised), with its arguments.\<close>

datatype gen_call =
    SegmentCall path
  | VariationsCall path string
  | ExpressionsCall path string
  | PersonalityCall path string

text \<open>
  The dictionary \<open>completed_files\<close>, whose keys can only be \<open>'segmented_image'\<close>,
  \<open>'variations'\<close>, \<open>'expressions'\<close> and \<open>'personality'\<close> (\<open>None\<close>: the key is absent),
  together with the log of the generator calls made so far.
\<close>

record completed_files =
  cf_segmented_image :: "path option"
  cf_variations :: "path list option"
  cf_expressions :: "(string \<times> path) list option"
  cf_personality :: "json option"
  calls :: "gen_call list"

text \<open>
  The three-way test on \<open>personality_result\<close> that \<open>complete_missing_preparation\<close> and
  \<open>select_avatar\<close> both spell out: a dictionary with the key \<open>'error'\<close> gives the default
  profile, else a dictionary with the key \<open>'personality_data'\<close> gives that value, anything
  else gives the default profile.
\<close>

definition personality_from_result :: "json \<Rightarrow> json" where
  "personality_from_result personality_result =
     (case personality_result of
        JDict d \<Rightarrow>
          (if ''error'' \<in> set (map fst d) then default_personality
           else (case map_of d ''personality_data'' of
                   Some personality_data \<Rightarrow> personality_data
                 | None \<Rightarrow> default_personality))
      | _ \<Rightarrow> default_personality)"

text \<open>
  \<open>completed_files.get('variations', [None])[0]\<close>: \<open>None\<close> when the key is absent, the
  first variation when the list is not empty, and \<open>IndexError\<close> on the empty list.
\<close>

definition first_variation :: "path list option \<Rightarrow> exn + path option" where
  "first_variation vs =
     (case vs of
        None \<Rightarrow> Inr None
      | Some [] \<Rightarrow> Inl (Exception ''IndexError'')
      | Some (v # _) \<Rightarrow> Inr (Some v))"

text \<open>\<open>x or y\<close> on an optional string: \<open>None\<close> and the empty string are falsy.\<close>

definition py_or :: "path option \<Rightarrow> path \<Rightarrow> path" where
  "py_or x y = (case x of None \<Rightarrow> y | Some s \<Rightarrow> (if s = [] then y else s))"

text \<open>The four stages of \<open>complete_missing_preparation\<close>, in the order of the source.\<close>

definition repair_segmented ::
  "services \<Rightarrow> path \<Rightarrow> (string \<times> missing_entry) list \<Rightarrow> completed_files \<Rightarrow> completed_files" where
  "repair_segmented svc original_image_path missing_files completed =
     (if ''segmented_image'' \<in> set (map fst missing_files) then
        (case svc_segment_image svc original_image_path of
           Inr segmented_path \<Rightarrow>
             completed\<lparr>cf_segmented_image := Some segmented_path,
                       calls := calls completed @ [SegmentCall original_image_path]\<rparr>
         | Inl e \<Rightarrow>
             completed\<lparr>cf_segmented_image := Some original_image_path,
                       calls := calls completed @ [SegmentCall original_image_path]\<rparr>)
      else completed)"

definition repair_variations ::
  "services \<Rightarrow> string \<Rightarrow> path \<Rightarrow> (string \<times> missing_entry) list \<Rightarrow> completed_files
     \<Rightarrow> completed_files" where
  "repair_variations svc image_uuid original_image_path missing_files completed =
     (if ''variations'' \<in> set (map fst missing_files) then
        (let segmented_image =
               (case cf_segmented_image completed of
                  Some s \<Rightarrow> s | None \<Rightarrow> original_image_path)
         in case svc_generate_cartoon_variations svc segmented_image image_uuid of
              Inr variations \<Rightarrow>
                completed\<lparr>cf_variations := Some variations,
                          calls := calls completed @ [VariationsCall segmented_image image_uuid]\<rparr>
            | Inl e \<Rightarrow>
                completed\<lparr>cf_variations := Some [],
                          calls := calls completed @ [VariationsCall segmented_image image_uuid]\<rparr>)
      else completed)"

definition repair_expressions ::
  "services \<Rightarrow> string \<Rightarrow> (string \<times> missing_entry) list \<Rightarrow> completed_files
     \<Rightarrow> completed_files" where
  "repair_expressions svc image_uuid missing_files completed =
     (if ''expressions'' \<in> set (map fst missing_files) then
        (case cf_variations completed of
           Some (selected_variation # rest) \<Rightarrow>
             (case svc_generate_expressions svc selected_variation image_uuid of
                Inr expressions \<Rightarrow>
                  completed\<lparr>cf_expressions := Some expressions,
                            calls := calls completed
                                     @ [ExpressionsCall selected_variation image_uuid]\<rparr>
              | Inl e \<Rightarrow>
                  completed\<lparr>cf_expressions := Some [],
                            calls := calls completed
                                     @ [ExpressionsCall selected_variation image_uuid]\<rparr>)
         | _ \<Rightarrow> completed)
      else completed)"

definition repair_personality ::
  "services \<Rightarrow> string \<Rightarrow> path \<Rightarrow> (string \<times> missing_entry) list \<Rightarrow> completed_files
     \<Rightarrow> completed_files" where
  "repair_personality svc image_uuid original_image_path missing_files completed =
     (if ''personality'' \<in> set (map fst missing_files) then
        (case first_variation (cf_variations completed) of
           Inl e \<Rightarrow> completed\<lparr>cf_personality := Some default_personality\<rparr>
         | Inr first \<Rightarrow>
             (let avatar_image =
                    py_or first
                      (case cf_segmented_image completed of
                         Some s \<Rightarrow> s | None \<Rightarrow> original_image_path)
              in case svc_generate_personality svc avatar_image image_uuid of
                   Inr personality_result \<Rightarrow>
                     completed\<lparr>cf_personality := Some (personality_from_result personality_result),
                               calls := calls completed
                                        @ [PersonalityCall avatar_image image_uuid]\<rparr>
                 | Inl e \<Rightarrow>
                     completed\<lparr>cf_personality := Some default_personality,
                               calls := calls completed
                                        @ [PersonalityCall avatar_image image_uuid]\<rparr>))
      else completed)"

text \<open>
  \<open>complete_missing_preparation(image_uuid, original_image_path, missing_files)\<close>. Only the
  keys of \<open>missing_files\<close> are read. Every statement that can raise stands inside one of the
  four inner \<open>try\<close> blocks, whose handlers are the \<open>Inl\<close> branches above; the outer handler
  returns \<open>completed_files\<close> as well, so the function has no exceptional result.
\<close>

definition complete_missing_preparation ::
  "services \<Rightarrow> string \<Rightarrow> path \<Rightarrow> (string \<times> missing_entry) list \<Rightarrow> completed_files" where
  "complete_missing_preparation svc image_uuid original_image_path missing_files =
     repair_personality svc image_uuid original_image_path missing_files
       (repair_expressions svc image_uuid missing_files
         (repair_variations svc image_uuid original_image_path missing_files
           (repair_segmented svc original_image_path missing_files
             \<lparr>cf_segmented_image = None, cf_variations = None, cf_expressions = None,
              cf_personality = None, calls = []\<rparr>)))"

text \<open>
  Services in which segmentation, expressions and personality generation succeed and the
  variations generator is a stand-in that raises.
\<close>

definition variations_failing_services :: services where
  "variations_failing_services =
     \<lparr>svc_segment_image = (\<lambda>p. Inr (''temp/processing/segmented_'' @ p)),
      svc_generate_cartoon_variations = (\<lambda>p u. Inl (Exception ''ValueError'')),
      svc_generate_expressions =
        (\<lambda>p u. Inr [(''happy'', ''generated/expressions/'' @ u @ ''_happy.mp4'')]),
      svc_generate_personality =
        (\<lambda>p u. Inr (JDict [(''personality_data'', JDict [(''voice_tone'', JStr ''calm'')])]))\<rparr>"

text \<open>Services in which every generator succeeds.\<close>

definition working_services :: services where
  "working_services =
     \<lparr>svc_segment_image = (\<lambda>p. Inr (''temp/processing/segmented_'' @ p)),
      svc_generate_cartoon_variations =
        (\<lambda>p u. Inr [''generated/avatars/'' @ u @ ''_variation_1.png'',
                    ''generated/avatars/'' @ u @ ''_variation_2.png'',
                    ''generated/avatars/'' @ u @ ''_variation_3.png'',
                    ''generated/avatars/'' @ u @ ''_variation_4.png'']),
      svc_generate_expressions =
        (\<lambda>p u. Inr [(''happy'', ''generated/expressions/'' @ u @ ''_happy.mp4''),
                    (''sad'', ''generated/expressions/'' @ u @ ''_sad.mp4''),
                    (''surprised'', ''generated/expressions/'' @ u @ ''_surprised.mp4'')]),
      svc_generate_personality =
        (\<lambda>p u. Inr (JDict [(''personality_data'', JDict [(''voice_tone'', JStr ''calm'')])]))\<rparr>"


section \<open>Paths and the uploads directory\<close>

text \<open>
  \<open>pathlib\<close> on POSIX: the components of a path are the pieces between slashes, without
  the empty pieces and the single dots; \<open>Path(p).name\<close> is the last component, or the empty
  string when there is none.
\<close>

fun split_slash :: "string \<Rightarrow> string list" where
  "split_slash [] = [[]]"
| "split_slash (c # cs) =
     (if c = CHR ''/'' then [] # split_slash cs
      else (case split_slash cs of
              w # ws \<Rightarrow> (c # w) # ws
            | [] \<Rightarrow> [[c]]))"

definition path_name :: "path \<Rightarrow> string" where
  "path_name p =
     (case filter (\<lambda>part. part \<noteq> [] \<and> part \<noteq> ''.'') (split_slash p) of
        [] \<Rightarrow> []
      | parts \<Rightarrow> last parts)"

text \<open>\<open>name.rfind('.')\<close>: the index of the last dot, or \<open>-1\<close>.\<close>

definition rfind_dot :: "string \<Rightarrow> int" where
  "rfind_dot name =
     (if CHR ''.'' \<in> set name
      then int (length name) - int (length (takeWhile (\<lambda>c. c \<noteq> CHR ''.'') (rev name))) - 1
      else - 1)"

text \<open>
  \<open>Path(p).suffix\<close> and \<open>Path(p).stem\<close>: with \<open>i = name.rfind('.')\<close>, the suffix is
  \<open>name[i:]\<close> and the stem \<open>name[:i]\<close> when \<open>0 < i < len(name) - 1\<close>; otherwise the suffix
  is empty and the stem is the name.
\<close>

definition path_suffix :: "path \<Rightarrow> string" where
  "path_suffix p =
     (let name = path_name p; i = rfind_dot name
      in if 0 < i \<and> i < int (length name) - 1 then drop (nat i) name else [])"

definition path_stem :: "path \<Rightarrow> string" where
  "path_stem p =
     (let name = path_name p; i = rfind_dot name
      in if 0 < i \<and> i < int (length name) - 1 then take (nat i) name else name)"

text \<open>
  \<open>str.lower()\<close> on the ASCII letters. A string is its UTF-8 bytes here, and no byte of a
  non-ASCII character is an ASCII letter; no non-ASCII character lowers to one of the
  letters of the allowed extensions either.
\<close>

definition ascii_lower :: "char \<Rightarrow> char" where
  "ascii_lower c =
     (case map_of (zip ''ABCDEFGHIJKLMNOPQRSTUVWXYZ'' ''abcdefghijklmnopqrstuvwxyz'') c of
        Some l \<Rightarrow> l
      | None \<Rightarrow> c)"

definition lower :: "string \<Rightarrow> string" where
  "lower s = map ascii_lower s"

definition allowed_extensions :: "string set" where
  "allowed_extensions = {''.jpg'', ''.jpeg'', ''.png'', ''.webp''}"

text \<open>The form of \<open>str(uuid.uuid4())\<close>: 36 characters, lower-case hex digits and hyphens.\<close>

definition valid_uuid :: "string \<Rightarrow> bool" where
  "valid_uuid u = (length u = 36 \<and> set u \<subseteq> set ''0123456789abcdef-'')"

text \<open>
  The directory \<open>uploads\<close>: its regular files with their contents, in the order in which
  \<open>uploads_dir.glob('*')\<close> enumerates them. Where a new directory entry appears in that
  order is not determined by the program: it is the position argument of \<open>insert_at\<close>.
\<close>

type_synonym bytes = string

type_synonym directory = "(path \<times> bytes) list"

definition insert_at :: "nat \<Rightarrow> 'a \<Rightarrow> 'a list \<Rightarrow> 'a list" where
  "insert_at k x xs = take k xs @ [x] @ drop k xs"

text \<open>\<open>file.save(p)\<close>: overwrites an existing file in place, creates the file otherwise.\<close>

definition save_file :: "directory \<Rightarrow> nat \<Rightarrow> path \<Rightarrow> bytes \<Rightarrow> directory" where
  "save_file files pos p c =
     (if p \<in> set (map fst files)
      then map (\<lambda>(q, d). if q = p then (q, c) else (q, d)) files
      else insert_at pos (p, c) files)"

text \<open>\<open>p.unlink()\<close> of a file.\<close>

definition unlink :: "directory \<Rightarrow> path \<Rightarrow> directory" where
  "unlink files p = filter (\<lambda>(q, d). q \<noteq> p) files"

text \<open>\<open>src.rename(dst)\<close> of a file with contents \<open>c\<close>: \<open>dst\<close> is replaced if it exists.\<close>

definition rename_file :: "directory \<Rightarrow> nat \<Rightarrow> path \<Rightarrow> path \<Rightarrow> bytes \<Rightarrow> directory" where
  "rename_file files pos src dst c =
     insert_at pos (dst, c) (filter (\<lambda>(q, d). q \<noteq> src \<and> q \<noteq> dst) files)"

text \<open>
  \<open>calculate_file_md5(file_path)\<close>: the digest of the file's bytes, or \<open>None\<close> when the file
  cannot be read. The digest function of \<open>hashlib\<close> is the parameter \<open>md5\<close>.
\<close>

definition calculate_file_md5 :: "(bytes \<Rightarrow> string) \<Rightarrow> directory \<Rightarrow> path \<Rightarrow> string option" where
  "calculate_file_md5 md5 files file_path = map_option md5 (map_of files file_path)"

text \<open>
  \<open>find_existing_image_by_md5(md5_hash, original_filename)\<close>, called once the directory
  exists: the first enumerated file with that digest and another path.
\<close>

definition find_existing_image_by_md5 ::
  "(bytes \<Rightarrow> string) \<Rightarrow> directory \<Rightarrow> string \<Rightarrow> path \<Rightarrow> path option" where
  "find_existing_image_by_md5 md5 files md5_hash original_filename =
     map_option fst
       (find (\<lambda>(file_path, d).
                calculate_file_md5 md5 files file_path = Some md5_hash \<and>
                file_path \<noteq> original_filename)
          files)"


section \<open>Sessions and the preparation endpoints (\<open>app.py\<close>)\<close>

text \<open>
  The values of \<open>session['status']\<close> that the source assigns: \<open>'uploaded'\<close>,
  \<open>'generating_variations'\<close>, \<open>'variations_ready'\<close>, \<open>'processing_selection'\<close>, \<open>'ready'\<close>,
  \<open>'ready_for_chat'\<close> and \<open>'preparation_completed'\<close>; and those of \<open>session['step']\<close>:
  \<open>'image_uploaded'\<close>, \<open>'generating_variations'\<close>, \<open>'variations_generated'\<close>,
  \<open>'generating_expressions'\<close> and \<open>'preparation_complete'\<close>.
\<close>

datatype status =
    Uploaded
  | GeneratingVariations
  | VariationsReady
  | ProcessingSelection
  | Ready
  | ReadyForChat
  | PreparationCompleted

datatype step =
    StepImageUploaded
  | StepGeneratingVariations
  | StepVariationsGenerated
  | StepGeneratingExpressions
  | StepPreparationComplete

text \<open>
  A session dictionary. The keys that only some sessions have are optional fields
  (\<open>None\<close>: the key is absent); \<open>auto_completed\<close> is either absent or \<open>True\<close>.
\<close>

record session =
  sess_session_id :: string
  sess_image_uuid :: string
  sess_original_image_path :: path
  sess_segmented_image :: path
  sess_variations :: "path list option"
  sess_expressions :: "(string \<times> path) list option"
  sess_personality_file :: "path option"
  sess_personality :: "json option"
  sess_status :: status
  sess_created_at :: int
  sess_step :: step
  sess_md5 :: string
  sess_auto_completed :: bool
  sess_variations_count :: "nat option"
  sess_selected_avatar :: "path option"
  sess_selected_index :: "int option"
  sess_completed_at :: "int option"

text \<open>
  What the endpoints read and write: the uploads directory, the set of the other paths that
  exist (\<open>generated/...\<close>), the global \<open>user_sessions\<close>, and the log of generator calls.
  The files that the generators themselves write are not tracked.
\<close>

record world =
  uploads :: directory
  generated :: "path set"
  user_sessions :: "string \<rightharpoonup> session"
  gen_calls :: "gen_call list"

text \<open>
  The response of an endpoint: an error with its HTTP status and \<open>code\<close>, or the data of
  the success response. Message texts are left out.
\<close>

datatype response =
    Failure nat string
  | UploadReadyForChat string int
  | UploadAutoCompleted string completed_files
  | UploadNewImage string path path
  | VariationsOk string "(nat \<times> string \<times> path) list" nat
  | SelectOk string int string json "(string \<times> path) list"

text \<open>
  \<open>request.files['image']\<close> with its \<open>filename\<close> (which may be \<open>None\<close>) and its bytes.
\<close>

record upload_file =
  filename :: "string option"
  content :: bytes

text \<open>
  What one call of \<open>upload_image\<close> draws from its environment: the two fresh
  \<open>uuid.uuid4()\<close> strings, \<open>int(time.time())\<close>, the places at which the staged and the renamed
  file appear in the directory enumeration, and what \<open>json.load\<close> gives for a stored
  personality file.
\<close>

record upload_env =
  ue_session_id :: string
  ue_image_uuid :: string
  ue_time :: int
  ue_save_pos :: nat
  ue_rename_pos :: nat
  ue_load_json :: "path \<Rightarrow> exn + json"

text \<open>
  \<open>upload_image()\<close>. The argument \<open>files_image\<close> is \<open>request.files.get('image')\<close>.
  After a duplicate is found nothing in the \<open>try\<close> around the repair raises in this model, so its handler
  (which would fall through to the new-image flow) is left out.
\<close>

definition upload_image ::
  "(bytes \<Rightarrow> string) \<Rightarrow> services \<Rightarrow> upload_env \<Rightarrow> upload_file option \<Rightarrow> world
     \<Rightarrow> world \<times> response" where
  "upload_image md5 svc env files_image w =
     (case files_image of
        None \<Rightarrow> (w, Failure 400 ''NO_FILE'')
      | Some file \<Rightarrow>
          if filename file = Some '''' then (w, Failure 400 ''NO_FILENAME'')
          else if lower (path_suffix (case filename file of None \<Rightarrow> '''' | Some f \<Rightarrow> f))
                    \<notin> allowed_extensions
          then (w, Failure 400 ''INVALID_FORMAT'')
          else
            (let session_id = ue_session_id env;
                 image_uuid = ue_image_uuid env;
                 original_filename =
                   (case filename file of
                      None \<Rightarrow> ''upload.jpg''
                    | Some f \<Rightarrow> (if f = [] then ''upload.jpg'' else f));
                 file_ext = lower (path_suffix original_filename);
                 temp_path = ''uploads/'' @ ''temp_'' @ image_uuid @ file_ext;
                 files1 = save_file (uploads w) (ue_save_pos env) temp_path (content file)
             in case calculate_file_md5 md5 files1 temp_path of
                  None \<Rightarrow> (w\<lparr>uploads := files1\<rparr>, Failure 500 ''FILE_PROCESSING_ERROR'')
                | Some file_md5 \<Rightarrow>
                    if file_md5 = [] then
                      (w\<lparr>uploads := files1\<rparr>, Failure 500 ''FILE_PROCESSING_ERROR'')
                    else
                      (case find_existing_image_by_md5 md5 files1 file_md5 temp_path of
                         Some existing_image_path \<Rightarrow>
                           (let files2 = unlink files1 temp_path;
                                existing_image_uuid = path_stem existing_image_path;
                                report = check_preparation_completeness (generated w)
                                           existing_image_uuid existing_image_path;
                                missing_files = fst report;
                                completion_percentage = snd report
                            in if length missing_files = 0 then
                                 (let personality_file_path = personality_file existing_image_uuid;
                                      personality_data =
                                        (if personality_file_path \<in> generated w
                                         then (case ue_load_json env personality_file_path of
                                                 Inr d \<Rightarrow> d
                                               | Inl e \<Rightarrow> default_personality)
                                         else default_personality)
                                  in (w\<lparr>uploads := files2,
                                        user_sessions := (user_sessions w)(session_id \<mapsto>
                                          \<lparr>sess_session_id = session_id,
                                           sess_image_uuid = existing_image_uuid,
                                           sess_original_image_path = existing_image_path,
                                           sess_segmented_image =
                                             ''temp/segmented_'' @ existing_image_uuid @ ''.jpg'',
                                           sess_variations =
                                             Some (variation_files existing_image_uuid),
                                           sess_expressions =
                                             Some (zip [''happy'', ''sad'', ''surprised'']
                                                     (expression_files existing_image_uuid)),
                                           sess_personality_file = Some personality_file_path,
                                           sess_personality = Some personality_data,
                                           sess_status = ReadyForChat,
                                           sess_created_at = ue_time env,
                                           sess_step = StepPreparationComplete,
                                           sess_md5 = file_md5,
                                           sess_auto_completed = False,
                                           sess_variations_count = None,
                                           sess_selected_avatar = None,
                                           sess_selected_index = None,
                                           sess_completed_at = None\<rparr>)\<rparr>,
                                      UploadReadyForChat session_id completion_percentage))
                               else
                                 (let completed = complete_missing_preparation svc
                                                    existing_image_uuid existing_image_path
                                                    missing_files
                                  in (w\<lparr>uploads := files2,
                                        gen_calls := gen_calls w @ calls completed,
                                        user_sessions := (user_sessions w)(session_id \<mapsto>
                                          \<lparr>sess_session_id = session_id,
                                           sess_image_uuid = existing_image_uuid,
                                           sess_original_image_path = existing_image_path,
                                           sess_segmented_image =
                                             (case cf_segmented_image completed of
                                                Some s \<Rightarrow> s | None \<Rightarrow> existing_image_path),
                                           sess_variations =
                                             Some (case cf_variations completed of
                                                     Some vs \<Rightarrow> vs | None \<Rightarrow> []),
                                           sess_expressions =
                                             Some (case cf_expressions completed of
                                                     Some ex \<Rightarrow> ex | None \<Rightarrow> []),
                                           sess_personality_file = None,
                                           sess_personality =
                                             Some (case cf_personality completed of
                                                     Some p \<Rightarrow> p | None \<Rightarrow> JNull),
                                           sess_status = PreparationCompleted,
                                           sess_created_at = ue_time env,
                                           sess_step = StepPreparationComplete,
                                           sess_md5 = file_md5,
                                           sess_auto_completed = True,
                                           sess_variations_count = None,
                                           sess_selected_avatar = None,
                                           sess_selected_index = None,
                                           sess_completed_at = None\<rparr>)\<rparr>,
                                      UploadAutoCompleted session_id completed)))
                       | None \<Rightarrow>
                           (let final_filename = image_uuid @ file_ext;
                                upload_path = ''uploads/'' @ final_filename;
                                files2 = rename_file files1 (ue_rename_pos env) temp_path
                                           upload_path (content file);
                                segmented_path =
                                  (case svc_segment_image svc upload_path of
                                     Inr p \<Rightarrow> p
                                   | Inl e \<Rightarrow> upload_path)
                            in (w\<lparr>uploads := files2,
                                  gen_calls := gen_calls w @ [SegmentCall upload_path],
                                  user_sessions := (user_sessions w)(session_id \<mapsto>
                                    \<lparr>sess_session_id = session_id,
                                     sess_image_uuid = image_uuid,
                                     sess_original_image_path = upload_path,
                                     sess_segmented_image = segmented_path,
                                     sess_variations = None,
                                     sess_expressions = None,
                                     sess_personality_file = None,
                                     sess_personality = None,
                                     sess_status = Uploaded,
                                     sess_created_at = ue_time env,
                                     sess_step = StepImageUploaded,
                                     sess_md5 = file_md5,
                                     sess_auto_completed = False,
                                     sess_variations_count = None,
                                     sess_selected_avatar = None,
                                     sess_selected_index = None,
                                     sess_completed_at = None\<rparr>)\<rparr>,
                                UploadNewImage session_id upload_path segmented_path)))))"


text \<open>
  The JSON body of a POST request as the two endpoints below read it: \<open>None\<close> is a body
  that is missing or falsy (\<open>if not data\<close>), otherwise a dictionary with the optional keys
  \<open>session_id\<close> and \<open>selected_index\<close>. An index is an integer, or a value that cannot be
  compared with an integer (a string, a list, a dictionary); floats are not modelled.
\<close>

datatype index_value = IndexInt int | IndexOther

record request_data =
  rd_session_id :: "string option"
  rd_selected_index :: "index_value option"

text \<open>\<open>generate_avatar_variations()\<close>.\<close>

definition generate_avatar_variations ::
  "services \<Rightarrow> request_data option \<Rightarrow> world \<Rightarrow> world \<times> response" where
  "generate_avatar_variations svc data w =
     (case data of
        None \<Rightarrow> (w, Failure 400 ''NO_DATA'')
      | Some d \<Rightarrow>
          (case rd_session_id d of
             None \<Rightarrow> (w, Failure 400 ''NO_SESSION_ID'')
           | Some session_id \<Rightarrow>
               if session_id = [] then (w, Failure 400 ''NO_SESSION_ID'')
               else
                 (case user_sessions w session_id of
                    None \<Rightarrow> (w, Failure 400 ''INVALID_SESSION'')
                  | Some session0 \<Rightarrow>
                      (let segmented_image = sess_segmented_image session0;
                           image_uuid = sess_image_uuid session0;
                           session1 = session0\<lparr>sess_status := GeneratingVariations,
                                               sess_step := StepGeneratingVariations\<rparr>
                       in case svc_generate_cartoon_variations svc segmented_image image_uuid of
                            Inl e \<Rightarrow>
                              (w\<lparr>user_sessions := (user_sessions w)(session_id \<mapsto> session1),
                                 gen_calls := gen_calls w
                                              @ [VariationsCall segmented_image image_uuid]\<rparr>,
                               Failure 500 ''GENERATION_ERROR'')
                          | Inr variations \<Rightarrow>
                              (w\<lparr>user_sessions := (user_sessions w)(session_id \<mapsto>
                                   session1\<lparr>sess_variations := Some variations,
                                            sess_status := VariationsReady,
                                            sess_step := StepVariationsGenerated,
                                            sess_variations_count := Some (length variations)\<rparr>),
                                 gen_calls := gen_calls w
                                              @ [VariationsCall segmented_image image_uuid]\<rparr>,
                               VariationsOk session_id
                                 (map (\<lambda>(i, variation_path).
                                         (i, ''/api/image/'' @ path_name variation_path,
                                          variation_path))
                                    (enumerate 0 variations))
                                 (length variations))))))"

text \<open>
  \<open>select_avatar()\<close>. \<open>expression_prompts\<close> is \<open>config['prompts']['expressions']\<close> and
  \<open>now\<close> is \<open>int(time.time())\<close>. Comparing an index that is not a number with
  \<open>len(variations)\<close> raises \<open>TypeError\<close>, which the outer handler answers with
  \<open>SELECTION_ERROR\<close>. \<open>chat_service.update_personality\<close> catches its own exceptions and
  touches no session; it is left out, as is the rendering of the expression URLs in the
  response.
\<close>

definition select_avatar ::
  "services \<Rightarrow> (string \<times> string) list \<Rightarrow> int \<Rightarrow> request_data option \<Rightarrow> world
     \<Rightarrow> world \<times> response" where
  "select_avatar svc expression_prompts now data w =
     (case data of
        None \<Rightarrow> (w, Failure 400 ''NO_DATA'')
      | Some d \<Rightarrow>
          if rd_session_id d = None \<or> rd_session_id d = Some [] then
            (w, Failure 400 ''NO_SESSION_ID'')
          else
            (case rd_selected_index d of
               None \<Rightarrow> (w, Failure 400 ''NO_SELECTION'')
             | Some selected_index \<Rightarrow>
                 (case user_sessions w (the (rd_session_id d)) of
                    None \<Rightarrow> (w, Failure 400 ''INVALID_SESSION'')
                  | Some session0 \<Rightarrow>
                      (let session_id = the (rd_session_id d);
                           variations =
                             (case sess_variations session0 of Some vs \<Rightarrow> vs | None \<Rightarrow> []);
                           image_uuid = sess_image_uuid session0
                       in case selected_index of
                            IndexOther \<Rightarrow> (w, Failure 500 ''SELECTION_ERROR'')
                          | IndexInt i \<Rightarrow>
                              if i \<ge> int (length variations) \<or> i < 0 then
                                (w, Failure 400 ''INVALID_INDEX'')
                              else
                                (let selected_avatar = variations ! nat i;
                                     session1 =
                                       session0\<lparr>sess_status := ProcessingSelection,
                                                sess_step := StepGeneratingExpressions,
                                                sess_selected_avatar := Some selected_avatar,
                                                sess_selected_index := Some i\<rparr>;
                                     expressions =
                                       (case svc_generate_expressions svc selected_avatar
                                               image_uuid of
                                          Inr ex \<Rightarrow> ex
                                        | Inl e \<Rightarrow>
                                            map (\<lambda>emotion.
                                                   (emotion,
                                                    image_uuid @ ''_'' @ emotion
                                                    @ ''_placeholder.mp4''))
                                              (map fst expression_prompts));
                                     personality =
                                       (case svc_generate_personality svc selected_avatar
                                               image_uuid of
                                          Inr personality_result \<Rightarrow>
                                            personality_from_result personality_result
                                        | Inl e \<Rightarrow> default_personality)
                                 in (w\<lparr>user_sessions := (user_sessions w)(session_id \<mapsto>
                                         session1\<lparr>sess_expressions := Some expressions,
                                                  sess_personality := Some personality,
                                                  sess_status := Ready,
                                                  sess_step := StepPreparationComplete,
                                                  sess_completed_at := Some now\<rparr>),
                                       gen_calls := gen_calls w
                                         @ [ExpressionsCall selected_avatar image_uuid,
                                            PersonalityCall selected_avatar image_uuid]\<rparr>,
                                     SelectOk session_id i
                                       (''/api/image/'' @ path_name selected_avatar)
                                       personality expressions))))))"

text \<open>
  The order of the pipeline states, \<open>uploaded\<close> first. The two states in which a
  deduplicated upload starts are chat-ready like \<open>ready\<close> and rank with it.
\<close>

fun status_rank :: "status \<Rightarrow> nat" where
  "status_rank Uploaded = 0"
| "status_rank GeneratingVariations = 1"
| "status_rank VariationsReady = 2"
| "status_rank ProcessingSelection = 3"
| "status_rank Ready = 4"
| "status_rank ReadyForChat = 4"
| "status_rank PreparationCompleted = 4"

text \<open>Whether a logged call is a segmentation (stage-1) call.\<close>

fun is_segment_call :: "gen_call \<Rightarrow> bool" where
  "is_segment_call (SegmentCall p) = True"
| "is_segment_call c = False"

text \<open>The error codes with which \<open>upload_image\<close> rejects a request during validation.\<close>

definition validation_codes :: "string set" where
  "validation_codes = {''NO_FILE'', ''NO_FILENAME'', ''INVALID_FORMAT''}"

text \<open>
  The requests that the validation of \<open>upload_image\<close> rejects: no file part, an empty
  filename, or an extension outside the allowed ones (a missing filename counts as one
  without extension).
\<close>

definition rejected_upload :: "upload_file option \<Rightarrow> bool" where
  "rejected_upload files_image =
     (case files_image of
        None \<Rightarrow> True
      | Some file \<Rightarrow>
          (case filename file of
             None \<Rightarrow> True
           | Some f \<Rightarrow> f = [] \<or> lower (path_suffix f) \<notin> allowed_extensions))"


section \<open>A concrete run of the pipeline\<close>

text \<open>An empty store, a digest function for the examples, and the environment of two uploads.\<close>

definition empty_world :: world where
  "empty_world = \<lparr>uploads = [], generated = {}, user_sessions = Map.empty, gen_calls = []\<rparr>"

definition example_md5 :: "bytes \<Rightarrow> string" where
  "example_md5 b = ''md5:'' @ b"

definition first_env :: upload_env where
  "first_env =
     \<lparr>ue_session_id = ''s1'', ue_image_uuid = ''11111111-1111-4111-8111-111111111111'',
      ue_time = 1000, ue_save_pos = 0, ue_rename_pos = 0,
      ue_load_json = (\<lambda>p. Inl (Exception ''FileNotFoundError''))\<rparr>"

definition second_env :: upload_env where
  "second_env =
     \<lparr>ue_session_id = ''s2'', ue_image_uuid = ''22222222-2222-4222-8222-222222222222'',
      ue_time = 2000, ue_save_pos = 0, ue_rename_pos = 0,
      ue_load_json = (\<lambda>p. Inl (Exception ''FileNotFoundError''))\<rparr>"

definition photo :: upload_file where
  "photo = \<lparr>filename = Some ''photo.JPG'', content = ''bytes of the photo''\<rparr>"

definition session_request :: "string \<Rightarrow> request_data option" where
  "session_request sid = Some \<lparr>rd_session_id = Some sid, rd_selected_index = None\<rparr>"

definition selection_request :: "string \<Rightarrow> int \<Rightarrow> request_data option" where
  "selection_request sid i =
     Some \<lparr>rd_session_id = Some sid, rd_selected_index = Some (IndexInt i)\<rparr>"

definition example_prompts :: "(string \<times> string) list" where
  "example_prompts = [(''happy'', ''smile''), (''sad'', ''cry''), (''surprised'', ''gasp'')]"

text \<open>
  The worlds after uploading the photo, then generating its variations, then selecting
  variation 0, then generating the variations once more.
\<close>

definition world_uploaded :: world where
  "world_uploaded = fst (upload_image example_md5 working_services first_env (Some photo) empty_world)"

definition world_variations :: world where
  "world_variations =
     fst (generate_avatar_variations working_services (session_request ''s1'') world_uploaded)"

definition world_selected :: world where
  "world_selected =
     fst (select_avatar working_services example_prompts 3000 (selection_request ''s1'' 0)
            world_variations)"

definition world_regenerated :: world where
  "world_regenerated =
     fst (generate_avatar_variations working_services (session_request ''s1'') world_selected)"


text \<open>Whether a response is an error response.\<close>

fun is_failure :: "response \<Rightarrow> bool" where
  "is_failure (Failure c code) = True"
| "is_failure r = False"

text \<open>The path under which \<open>upload_image\<close> stages a file of the given name.\<close>

definition staging_path :: "string \<Rightarrow> string \<Rightarrow> path" where
  "staging_path image_uuid original_filename =
     ''uploads/'' @ ''temp_'' @ image_uuid @ lower (path_suffix original_filename)"


text \<open>The session that the first upload of the photo creates.\<close>

definition session_uploaded :: session where
  "session_uploaded =
     \<lparr>sess_session_id = ''s1'',
      sess_image_uuid = ''11111111-1111-4111-8111-111111111111'',
      sess_original_image_path = ''uploads/11111111-1111-4111-8111-111111111111.jpg'',
      sess_segmented_image =
        ''temp/processing/segmented_uploads/11111111-1111-4111-8111-111111111111.jpg'',
      sess_variations = None, sess_expressions = None, sess_personality_file = None,
      sess_personality = None, sess_status = Uploaded, sess_created_at = 1000,
      sess_step = StepImageUploaded, sess_md5 = ''md5:bytes of the photo'',
      sess_auto_completed = False, sess_variations_count = None,
      sess_selected_avatar = None, sess_selected_index = None, sess_completed_at = None\<rparr>"


section \<open>Properties of the completeness verifier\<close>

lemma filter_absent_empty: "(filter (\<lambda>p. p \<notin> fs) xs = []) = (set xs \<subseteq> fs)"
  by (auto simp: filter_empty_conv)

lemma fst_check_preparation_completeness:
  "fst (check_preparation_completeness fs u p) =
     (if set (variation_files u) \<subseteq> fs then []
      else [(''variations'', PathList (filter (\<lambda>q. q \<notin> fs) (variation_files u)))]) @
     (if set (expression_files u) \<subseteq> fs then []
      else [(''expressions'', PathList (filter (\<lambda>q. q \<notin> fs) (expression_files u)))]) @
     (if personality_file u \<in> fs then []
      else [(''personality'', PathStr (personality_file u))])"
  by (simp add: check_preparation_completeness_def Let_def filter_absent_empty)

lemma report_keys:
  "map fst (fst (check_preparation_completeness fs u p)) =
     filter (\<lambda>k. k = ''variations'' \<and> \<not> set (variation_files u) \<subseteq> fs
                \<or> k = ''expressions'' \<and> \<not> set (expression_files u) \<subseteq> fs
                \<or> k = ''personality'' \<and> personality_file u \<notin> fs)
       [''variations'', ''expressions'', ''personality'']"
  by (simp add: fst_check_preparation_completeness)

lemma report_variations_entry:
  "map_of (fst (check_preparation_completeness fs u p)) ''variations'' =
       (if set (variation_files u) \<subseteq> fs then None
        else Some (PathList (filter (\<lambda>q. q \<notin> fs) (variation_files u))))"
  by (simp add: fst_check_preparation_completeness)

lemma report_expressions_entry:
  "map_of (fst (check_preparation_completeness fs u p)) ''expressions'' =
       (if set (expression_files u) \<subseteq> fs then None
        else Some (PathList (filter (\<lambda>q. q \<notin> fs) (expression_files u))))"
  by (simp add: fst_check_preparation_completeness)

lemma report_personality_entry:
  "map_of (fst (check_preparation_completeness fs u p)) ''personality'' =
       (if personality_file u \<in> fs then None else Some (PathStr (personality_file u)))"
  by (simp add: fst_check_preparation_completeness)

lemma report_segmented_entry:
  "map_of (fst (check_preparation_completeness fs u p)) ''segmented_image'' = None"
  by (simp add: fst_check_preparation_completeness)

lemma length_variation_files: "length (variation_files u) = 4"
  by (simp add: variation_files_def)

lemma length_expression_files: "length (expression_files u) = 3"
  by (simp add: expression_files_def)

text \<open>
  C1 (as stated, refuted). With exactly one category-group missing (here the personality
  file, all seven variation and expression files being present) the completion percentage
  is \<open>int((2 / 3) * 100) = 66\<close>, not 67.
\<close>

theorem one_missing_group_counterexample:
  "length (fst (check_preparation_completeness
      (set (variation_files ''a'' @ expression_files ''a'')) ''a'' ''uploads/a.jpg'')) = 1 \<and>
   snd (check_preparation_completeness
      (set (variation_files ''a'' @ expression_files ''a'')) ''a'' ''uploads/a.jpg'') \<noteq> 67"
  by (simp add: check_preparation_completeness_def py_int_def Let_def
      variation_files_def expression_files_def personality_file_def)

text \<open>
  C1 (amended). For every avatar identity and every storage snapshot the completeness check
  reports at most three missing category-groups, and the completion percentage is exactly
  100, 66, 33 or 0 when the number of missing groups is 0, 1, 2 or 3 respectively: the
  truncation of \<open>100 * (3 - n) / 3\<close>.
\<close>

theorem completion_percentage_by_missing_count:
  "length (fst (check_preparation_completeness fs image_uuid p)) \<le> 3 \<and>
   snd (check_preparation_completeness fs image_uuid p) =
     [100, 66, 33, 0] ! length (fst (check_preparation_completeness fs image_uuid p))"
  by (simp add: check_preparation_completeness_def py_int_def Let_def)

text \<open>
  C6 (as stated, refuted). When the personality file is absent, the report does not map
  \<open>'personality'\<close> to a list of missing paths: the entry is the bare path string.
\<close>

theorem personality_entry_counterexample:
  "map_of (fst (check_preparation_completeness {} ''a'' ''uploads/a.jpg'')) ''personality''
     = Some (PathStr ''generated/personality/a_personality.json'') \<and>
   map_of (fst (check_preparation_completeness {} ''a'' ''uploads/a.jpg'')) ''personality''
     \<noteq> Some (PathList [''generated/personality/a_personality.json''])"
  by (simp add: fst_check_preparation_completeness personality_file_def)

text \<open>
  C6 (amended). The completeness check reports a category-group as missing if and only if
  at least one of its required paths is absent (4 variation files, 3 expression files,
  1 personality file); the keys of the report are drawn from exactly the three groups
  variations, expressions, personality, in that order, and the segmented image is never
  reported; a reported \<open>variations\<close> or \<open>expressions\<close> group maps to the list of its
  missing paths, and a reported \<open>personality\<close> group maps to its single missing path as a
  bare string, not a list.
\<close>

theorem missing_groups_report:
  "map fst (fst (check_preparation_completeness fs u p)) =
     filter (\<lambda>k. k = ''variations'' \<and> \<not> set (variation_files u) \<subseteq> fs
                \<or> k = ''expressions'' \<and> \<not> set (expression_files u) \<subseteq> fs
                \<or> k = ''personality'' \<and> personality_file u \<notin> fs)
       [''variations'', ''expressions'', ''personality'']
   \<and> map_of (fst (check_preparation_completeness fs u p)) ''variations'' =
       (if set (variation_files u) \<subseteq> fs then None
        else Some (PathList (filter (\<lambda>q. q \<notin> fs) (variation_files u))))
   \<and> map_of (fst (check_preparation_completeness fs u p)) ''expressions'' =
       (if set (expression_files u) \<subseteq> fs then None
        else Some (PathList (filter (\<lambda>q. q \<notin> fs) (expression_files u))))
   \<and> map_of (fst (check_preparation_completeness fs u p)) ''personality'' =
       (if personality_file u \<in> fs then None else Some (PathStr (personality_file u)))
   \<and> map_of (fst (check_preparation_completeness fs u p)) ''segmented_image'' = None
   \<and> length (variation_files u) = 4 \<and> length (expression_files u) = 3"
  using report_keys[of fs u p] report_variations_entry[of fs u p]
    report_expressions_entry[of fs u p] report_personality_entry[of fs u p]
    report_segmented_entry[of fs u p] length_variation_files[of u]
    length_expression_files[of u]
  by blast

section \<open>Properties of personality validation\<close>

lemma length_list_field: "length (list_field py_str n k data) \<le> n"
  by (simp add: list_field_def split: json.split option.split)

lemma validate_personality_data_eq:
  "validate_personality_data py_str data =
     JDict [(''personality'', JList (map JStr (list_field py_str 5 ''personality'' data))),
            (''habits'', JList (map JStr (list_field py_str 3 ''habits'' data))),
            (''voice_tone'', JStr (str_field ''friendly'' ''voice_tone'' data))]"
proof (cases data)
  case (JDict d)
  have p: "(case map_of d ''personality'' of
               Some (JList traits) \<Rightarrow> map py_str (take 5 traits) | _ \<Rightarrow> [])
           = list_field py_str 5 ''personality'' data"
    by (simp add: list_field_def JDict)
  have h: "(case map_of d ''habits'' of
               Some (JList hs) \<Rightarrow> map py_str (take 3 hs) | _ \<Rightarrow> [])
           = list_field py_str 3 ''habits'' data"
    by (simp add: list_field_def JDict)
  have v: "(case map_of d ''voice_tone'' of Some (JStr t) \<Rightarrow> t | _ \<Rightarrow> ''friendly'')
           = str_field ''friendly'' ''voice_tone'' data"
    by (simp add: str_field_def JDict)
  show ?thesis
    unfolding validate_personality_data_def Let_def JDict json.case p h v ..
qed (simp_all add: validate_personality_data_def list_field_def str_field_def)

text \<open>
  C8. For every input value (a dictionary, malformed or empty, or no dictionary at all),
  personality validation returns a dictionary with exactly the three keys
  \<open>personality\<close>, \<open>habits\<close> and \<open>voice_tone\<close>, in which \<open>personality\<close> is a list of at
  most 5 strings, \<open>habits\<close> a list of at most 3 strings and \<open>voice_tone\<close> a string: the
  profile is never partially populated.
\<close>

theorem validated_profile_shape:
  "\<exists>ps hs t. validate_personality_data py_str data =
      JDict [(''personality'', JList (map JStr ps)), (''habits'', JList (map JStr hs)),
             (''voice_tone'', JStr t)]
     \<and> length ps \<le> 5 \<and> length hs \<le> 3"
  using validate_personality_data_eq[of py_str data]
    length_list_field[of py_str 5 "''personality''" data]
    length_list_field[of py_str 3 "''habits''" data]
  by blast

section \<open>Properties of the variations generator\<close>

lemma variations_loop_eq:
  "variations_loop svc p u i prompts acc =
     acc @ map (\<lambda>(k, prompt). generate_one_variation svc p u k prompt) (enumerate i prompts)"
  by (induction prompts arbitrary: i acc) simp_all

lemma call_wanx_image_edit_async_path:
  "call_wanx_image_edit_async task p prompt u name = Inr q \<Longrightarrow>
     q = ''generated/avatars/'' @ u @ ''_'' @ name @ ''.png''"
  by (auto simp: call_wanx_image_edit_async_def split: if_splits sum.splits option.splits)

lemma generate_one_variation_entry:
  "(case call_wanx_image_edit_async (wanx svc (''variation_'' @ str_nat (i + 1)))
           p prompt u (''variation_'' @ str_nat (i + 1)) of
      Inr q \<Rightarrow>
        generate_one_variation svc p u i prompt = q \<and>
        q = ''generated/avatars/'' @ u @ ''_variation_'' @ str_nat (i + 1) @ ''.png''
    | Inl e \<Rightarrow>
        generate_one_variation svc p u i prompt =
          (if placeholder_save_ok svc (''variation_'' @ str_nat (i + 1) @ ''_placeholder'')
           then ''generated/avatars/'' @ u @ ''_variation_'' @ str_nat (i + 1)
                @ ''_placeholder.png''
           else ''''))"
proof (cases "call_wanx_image_edit_async (wanx svc (''variation_'' @ str_nat (i + 1)))
           p prompt u (''variation_'' @ str_nat (i + 1))")
  case (Inl e)
  then show ?thesis
    by (simp add: generate_one_variation_def create_placeholder_image_def)
next
  case (Inr q)
  then show ?thesis
    using call_wanx_image_edit_async_path[OF Inr]
    by (simp add: generate_one_variation_def)
qed

text \<open>
  C7 (as stated, refuted). With five prompts configured, a variation whose generation fails
  and whose placeholder cannot be created either contributes the empty string: the third and
  fourth entries are neither a generated variation nor a placeholder image.
\<close>

theorem empty_entry_counterexample:
  "4 \<le> length (cartoon_prompts example_image_service) \<and>
   generate_cartoon_variations example_image_service ''temp/processing/seg.png'' ''u'' =
     Inr [''generated/avatars/u_variation_1.png'',
          ''generated/avatars/u_variation_2_placeholder.png'', '''', '''']"
  by (simp add: example_image_service_def generate_cartoon_variations_def
      generate_one_variation_def call_wanx_image_edit_async_def create_placeholder_image_def
      str_nat.simps poll_task.simps)

text \<open>
  C7 (amended). Whenever at least 4 cartoon prompts are configured, the variations generator
  returns a list of exactly 4 entries, where entry \<open>i\<close> is the path of variation \<open>i+1\<close>
  when its generation succeeded, and otherwise what was substituted for that single
  variation's failure: the path of its placeholder image, or the empty string when the
  placeholder could not be created either.
\<close>

theorem cartoon_variations_four_entries:
  assumes "4 \<le> length (cartoon_prompts svc)"
  shows "\<exists>ps. generate_cartoon_variations svc p u = Inr ps \<and> length ps = 4 \<and>
     (\<forall>i<4.
        (case call_wanx_image_edit_async (wanx svc (''variation_'' @ str_nat (i + 1)))
                p (cartoon_prompts svc ! i) u (''variation_'' @ str_nat (i + 1)) of
           Inr q \<Rightarrow>
             ps ! i = q \<and>
             q = ''generated/avatars/'' @ u @ ''_variation_'' @ str_nat (i + 1) @ ''.png''
         | Inl e \<Rightarrow>
             ps ! i =
               (if placeholder_save_ok svc (''variation_'' @ str_nat (i + 1) @ ''_placeholder'')
                then ''generated/avatars/'' @ u @ ''_variation_'' @ str_nat (i + 1)
                     @ ''_placeholder.png''
                else '''')))"
proof -
  let ?ps = "variations_loop svc p u 0 (take 4 (cartoon_prompts svc)) []"
  have 1: "generate_cartoon_variations svc p u = Inr ?ps"
    using assms by (simp add: generate_cartoon_variations_def)
  have 2: "length ?ps = 4"
    using assms by (simp add: variations_loop_eq)
  have 3: "?ps ! i = generate_one_variation svc p u i (cartoon_prompts svc ! i)"
    if "i < 4" for i
    using assms that by (simp add: variations_loop_eq nth_enumerate_eq)
  have 4: "(case call_wanx_image_edit_async (wanx svc (''variation_'' @ str_nat (i + 1)))
                p (cartoon_prompts svc ! i) u (''variation_'' @ str_nat (i + 1)) of
           Inr q \<Rightarrow>
             ?ps ! i = q \<and>
             q = ''generated/avatars/'' @ u @ ''_variation_'' @ str_nat (i + 1) @ ''.png''
         | Inl e \<Rightarrow>
             ?ps ! i =
               (if placeholder_save_ok svc (''variation_'' @ str_nat (i + 1) @ ''_placeholder'')
                then ''generated/avatars/'' @ u @ ''_variation_'' @ str_nat (i + 1)
                     @ ''_placeholder.png''
                else ''''))"
    if "i < 4" for i
    unfolding 3[OF that] by (rule generate_one_variation_entry)
  show ?thesis using 1 2 4 by blast
qed

text \<open>
  C7 (amended), at a service with four prompts whose tasks all succeed: the four entries
  are the four variation paths.
\<close>

theorem cartoon_variations_four_entries_witness:
  "4 \<le> length (cartoon_prompts working_image_service) \<and>
   generate_cartoon_variations working_image_service ''temp/processing/seg.png'' ''u'' =
     Inr [''generated/avatars/u_variation_1.png'', ''generated/avatars/u_variation_2.png'',
          ''generated/avatars/u_variation_3.png'', ''generated/avatars/u_variation_4.png'']"
  using cartoon_variations_four_entries
    [of working_image_service "''temp/processing/seg.png''" "''u''"]
  by (simp add: working_image_service_def generate_cartoon_variations_def
      generate_one_variation_def call_wanx_image_edit_async_def create_placeholder_image_def
      str_nat.simps poll_task.simps)

section \<open>Properties of the auto-repair orchestrator\<close>

text \<open>Each stage writes its own key and the call log only.\<close>

lemma repair_variations_frame:
  "cf_segmented_image (repair_variations svc u orig m c) = cf_segmented_image c"
  "cf_expressions (repair_variations svc u orig m c) = cf_expressions c"
  "cf_personality (repair_variations svc u orig m c) = cf_personality c"
  by (simp_all add: repair_variations_def Let_def split: sum.split)

lemma repair_expressions_frame:
  "cf_segmented_image (repair_expressions svc u m c) = cf_segmented_image c"
  "cf_variations (repair_expressions svc u m c) = cf_variations c"
  "cf_personality (repair_expressions svc u m c) = cf_personality c"
  by (simp_all add: repair_expressions_def split: sum.split option.split list.split)

lemma repair_personality_frame:
  "cf_segmented_image (repair_personality svc u orig m c) = cf_segmented_image c"
  "cf_variations (repair_personality svc u orig m c) = cf_variations c"
  "cf_expressions (repair_personality svc u orig m c) = cf_expressions c"
  by (simp_all add: repair_personality_def Let_def split: sum.split)

lemma repair_segmented_frame:
  "cf_variations (repair_segmented svc orig m c) = cf_variations c"
  "cf_expressions (repair_segmented svc orig m c) = cf_expressions c"
  "cf_personality (repair_segmented svc orig m c) = cf_personality c"
  by (simp_all add: repair_segmented_def split: sum.split)

lemmas repair_frames =
  repair_variations_frame repair_expressions_frame repair_personality_frame
  repair_segmented_frame

lemma repaired_segmented_image:
  "cf_segmented_image (complete_missing_preparation svc u orig m) =
     (if ''segmented_image'' \<in> set (map fst m)
      then Some (case svc_segment_image svc orig of Inr p \<Rightarrow> p | Inl e \<Rightarrow> orig)
      else None)"
  by (simp add: complete_missing_preparation_def repair_frames repair_segmented_def
      split: sum.split)

lemma repaired_variations:
  "cf_variations (complete_missing_preparation svc u orig m) =
     (if ''variations'' \<in> set (map fst m)
      then Some (case svc_generate_cartoon_variations svc
                        (case cf_segmented_image (complete_missing_preparation svc u orig m) of
                           Some s \<Rightarrow> s | None \<Rightarrow> orig) u of
                   Inr vs \<Rightarrow> vs | Inl e \<Rightarrow> [])
      else None)"
  by (simp add: complete_missing_preparation_def repair_frames repair_variations_def Let_def
      split: sum.split)

lemma repair_expressions_result:
  assumes "cf_expressions c = None"
  shows "cf_expressions (repair_expressions svc u m c) =
     (if ''expressions'' \<in> set (map fst m)
      then (case cf_variations c of
              Some (v # vs) \<Rightarrow>
                Some (case svc_generate_expressions svc v u of Inr ex \<Rightarrow> ex | Inl e \<Rightarrow> [])
            | _ \<Rightarrow> None)
      else None)"
proof (cases "cf_variations c")
  case None
  then show ?thesis using assms by (simp add: repair_expressions_def)
next
  case (Some xs)
  show ?thesis
  proof (cases xs)
    case Nil
    then show ?thesis using assms Some by (simp add: repair_expressions_def)
  next
    case (Cons v vs)
    then show ?thesis
      using assms Some
      by (cases "svc_generate_expressions svc v u") (simp_all add: repair_expressions_def)
  qed
qed

lemma repaired_expressions:
  "cf_expressions (complete_missing_preparation svc u orig m) =
     (if ''expressions'' \<in> set (map fst m)
      then (case cf_variations (complete_missing_preparation svc u orig m) of
              Some (v # vs) \<Rightarrow>
                Some (case svc_generate_expressions svc v u of Inr ex \<Rightarrow> ex | Inl e \<Rightarrow> [])
            | _ \<Rightarrow> None)
      else None)"
proof -
  define c where "c = repair_variations svc u orig m
           (repair_segmented svc orig m
             \<lparr>cf_segmented_image = None, cf_variations = None, cf_expressions = None,
              cf_personality = None, calls = []\<rparr>)"
  have e: "cf_expressions c = None"
    by (simp add: c_def repair_frames)
  have 1: "cf_expressions (complete_missing_preparation svc u orig m) =
           cf_expressions (repair_expressions svc u m c)"
    by (simp add: complete_missing_preparation_def c_def repair_frames)
  have 2: "cf_variations (complete_missing_preparation svc u orig m) = cf_variations c"
    by (simp add: complete_missing_preparation_def c_def repair_frames)
  show ?thesis
    unfolding 1 2 by (rule repair_expressions_result[OF e])
qed

lemma personality_from_result_cases:
  "personality_from_result res = default_personality \<or>
   (\<exists>d. res = JDict d \<and> map_of d ''personality_data'' = Some (personality_from_result res))"
  by (auto simp: personality_from_result_def split: json.split option.split)

lemma repaired_personality:
  "(if ''personality'' \<in> set (map fst m)
    then cf_personality (complete_missing_preparation svc u orig m) = Some default_personality \<or>
         (\<exists>img d pd. svc_generate_personality svc img u = Inr (JDict d) \<and>
                    map_of d ''personality_data'' = Some pd \<and>
                    cf_personality (complete_missing_preparation svc u orig m) = Some pd)
    else cf_personality (complete_missing_preparation svc u orig m) = None)"
proof (cases "''personality'' \<in> set (map fst m)")
  case False
  then show ?thesis
    by (simp add: complete_missing_preparation_def repair_personality_def repair_frames)
next
  case True
  define c where "c = repair_expressions svc u m
         (repair_variations svc u orig m
           (repair_segmented svc orig m
             \<lparr>cf_segmented_image = None, cf_variations = None, cf_expressions = None,
              cf_personality = None, calls = []\<rparr>))"
  have r: "complete_missing_preparation svc u orig m = repair_personality svc u orig m c"
    by (simp add: complete_missing_preparation_def c_def)
  show ?thesis
  proof (cases "first_variation (cf_variations c)")
    case (Inl e)
    then show ?thesis using True by (simp add: r repair_personality_def)
  next
    case (Inr first)
    let ?img = "py_or first (case cf_segmented_image c of Some s \<Rightarrow> s | None \<Rightarrow> orig)"
    show ?thesis
    proof (cases "svc_generate_personality svc ?img u")
      case (Inl e)
      then show ?thesis using True Inr by (simp add: r repair_personality_def)
    next
      case res: (Inr res)
      have "cf_personality (repair_personality svc u orig m c) = Some (personality_from_result res)"
        using True Inr res by (simp add: repair_personality_def)
      then show ?thesis
        using True res personality_from_result_cases[of res] unfolding r by auto
    qed
  qed
qed

text \<open>
  C2 (as stated, refuted). When only \<open>expressions\<close> is in the missing-set, the repair result
  has no \<open>expressions\<close> entry at all (neither a produced mapping nor the empty mapping), and
  no generator is called, although every generator would have succeeded.
\<close>

theorem expressions_only_counterexample:
  "''expressions'' \<in> set (map fst [(''expressions'', PathList (expression_files ''u''))]) \<and>
   complete_missing_preparation working_services ''u'' ''uploads/u.jpg''
       [(''expressions'', PathList (expression_files ''u''))] =
     \<lparr>cf_segmented_image = None, cf_variations = None, cf_expressions = None,
      cf_personality = None, calls = []\<rparr>"
  by (simp add: complete_missing_preparation_def repair_segmented_def repair_variations_def
      repair_expressions_def repair_personality_def)

text \<open>
  C2 (amended). For every missing-set given to the auto-repair operation, the returned
  repair result contains, for each of the categories segmented, variations and personality
  in that missing-set, either a newly produced artifact or that category's fallback value
  (original image for segmented, empty list for variations, fixed default profile for
  personality); for expressions in the missing-set it contains an entry (the produced mapping,
  or the empty mapping as fallback) when the same repair put a non-empty variations list
  into its result, and no entry otherwise; a category outside the missing-set gets no entry.
  The operation is a total function without exceptional result: it never raises past its own
  boundary.
\<close>

theorem repair_result_entries:
  "(if ''segmented_image'' \<in> set (map fst m)
    then (\<exists>p. svc_segment_image svc orig = Inr p \<and>
              cf_segmented_image (complete_missing_preparation svc u orig m) = Some p) \<or>
         cf_segmented_image (complete_missing_preparation svc u orig m) = Some orig
    else cf_segmented_image (complete_missing_preparation svc u orig m) = None) \<and>
   (if ''variations'' \<in> set (map fst m)
    then (\<exists>img vs. svc_generate_cartoon_variations svc img u = Inr vs \<and>
              cf_variations (complete_missing_preparation svc u orig m) = Some vs) \<or>
         cf_variations (complete_missing_preparation svc u orig m) = Some []
    else cf_variations (complete_missing_preparation svc u orig m) = None) \<and>
   (if ''personality'' \<in> set (map fst m)
    then cf_personality (complete_missing_preparation svc u orig m) = Some default_personality \<or>
         (\<exists>img d pd. svc_generate_personality svc img u = Inr (JDict d) \<and>
                    map_of d ''personality_data'' = Some pd \<and>
                    cf_personality (complete_missing_preparation svc u orig m) = Some pd)
    else cf_personality (complete_missing_preparation svc u orig m) = None) \<and>
   (if ''expressions'' \<in> set (map fst m) \<and>
       (\<exists>v vs. cf_variations (complete_missing_preparation svc u orig m) = Some (v # vs))
    then (\<exists>v ex. svc_generate_expressions svc v u = Inr ex \<and>
              cf_expressions (complete_missing_preparation svc u orig m) = Some ex) \<or>
         cf_expressions (complete_missing_preparation svc u orig m) = Some []
    else cf_expressions (complete_missing_preparation svc u orig m) = None)"
proof -
  have 1: "(if ''segmented_image'' \<in> set (map fst m)
    then (\<exists>p. svc_segment_image svc orig = Inr p \<and>
              cf_segmented_image (complete_missing_preparation svc u orig m) = Some p) \<or>
         cf_segmented_image (complete_missing_preparation svc u orig m) = Some orig
    else cf_segmented_image (complete_missing_preparation svc u orig m) = None)"
    by (simp add: repaired_segmented_image split: sum.split)
  have 2: "(if ''variations'' \<in> set (map fst m)
    then (\<exists>img vs. svc_generate_cartoon_variations svc img u = Inr vs \<and>
              cf_variations (complete_missing_preparation svc u orig m) = Some vs) \<or>
         cf_variations (complete_missing_preparation svc u orig m) = Some []
    else cf_variations (complete_missing_preparation svc u orig m) = None)"
    by (subst (1 2 3) repaired_variations) (auto split: sum.split)
  have 4: "(if ''expressions'' \<in> set (map fst m) \<and>
       (\<exists>v vs. cf_variations (complete_missing_preparation svc u orig m) = Some (v # vs))
    then (\<exists>v ex. svc_generate_expressions svc v u = Inr ex \<and>
              cf_expressions (complete_missing_preparation svc u orig m) = Some ex) \<or>
         cf_expressions (complete_missing_preparation svc u orig m) = Some []
    else cf_expressions (complete_missing_preparation svc u orig m) = None)"
    by (subst (1 2 3) repaired_expressions)
       (auto split: sum.split option.split list.split)
  show ?thesis using 1 2 repaired_personality[of m svc u orig] 4 by blast
qed


text \<open>
  The variations entry is the empty list only when the variations generator raises. A
  stand-in that raises shows what the handlers do then: the variations stage stores the
  empty list, \<open>completed_files.get('variations', [None])[0]\<close> raises \<open>IndexError\<close>, and the
  handler of the personality stage stores the default profile without a generator call.
\<close>

lemma raising_stand_in_skips_personality_call:
  "complete_missing_preparation variations_failing_services ''u'' ''uploads/u.jpg''
       [(''variations'', PathList (variation_files ''u'')),
        (''personality'', PathStr (personality_file ''u''))] =
     \<lparr>cf_segmented_image = None, cf_variations = Some [], cf_expressions = None,
      cf_personality = Some default_personality,
      calls = [VariationsCall ''uploads/u.jpg'' ''u'']\<rparr>"
  by (simp add: complete_missing_preparation_def repair_segmented_def repair_variations_def
      repair_expressions_def repair_personality_def variations_failing_services_def
      first_variation_def)




section \<open>Properties of the endpoints\<close>

lemma upload_image_no_file:
  "upload_image md5 svc env None w = (w, Failure 400 ''NO_FILE'')"
  by (simp add: upload_image_def)

lemma upload_image_empty_filename:
  "filename file = Some [] \<Longrightarrow>
   upload_image md5 svc env (Some file) w = (w, Failure 400 ''NO_FILENAME'')"
  by (simp add: upload_image_def)

lemma upload_image_invalid_format:
  "filename file \<noteq> Some [] \<Longrightarrow>
   lower (path_suffix (case filename file of None \<Rightarrow> [] | Some f \<Rightarrow> f)) \<notin> allowed_extensions \<Longrightarrow>
   upload_image md5 svc env (Some file) w = (w, Failure 400 ''INVALID_FORMAT'')"
  by (simp add: upload_image_def)

lemma path_suffix_empty: "path_suffix [] = []"
  by (simp add: path_suffix_def path_name_def rfind_dot_def)

lemma empty_not_allowed: "lower [] \<notin> allowed_extensions"
  by (simp add: lower_def allowed_extensions_def)

lemma rejected_upload_result:
  assumes "rejected_upload files_image"
  shows "\<exists>code \<in> validation_codes.
           upload_image md5 svc env files_image w = (w, Failure 400 code)"
proof (cases files_image)
  case None
  then show ?thesis by (simp add: upload_image_no_file validation_codes_def)
next
  case (Some upl)
  show ?thesis
  proof (cases "filename upl = Some []")
    case True
    then show ?thesis
      by (simp add: Some upload_image_empty_filename validation_codes_def)
  next
    case False
    have "lower (path_suffix (case filename upl of None \<Rightarrow> [] | Some f \<Rightarrow> f))
            \<notin> allowed_extensions"
      using assms False
      by (cases "filename upl")
         (simp_all add: Some rejected_upload_def path_suffix_empty empty_not_allowed)
    then show ?thesis
      using False by (simp add: Some upload_image_invalid_format validation_codes_def)
  qed
qed

text \<open>
  C10. If an upload request is rejected by input validation (no file part, empty filename,
  or a file extension outside .jpg, .jpeg, .png, .webp), the upload operation answers with
  status 400 and one of the three validation codes and returns the world as it was: no
  session record is created and no byte is written to the uploads directory.
\<close>

theorem rejected_upload_changes_nothing:
  assumes "rejected_upload files_image"
  shows "fst (upload_image md5 svc env files_image w) = w \<and>
         (\<exists>code \<in> validation_codes.
            snd (upload_image md5 svc env files_image w) = Failure 400 code)"
  using rejected_upload_result[OF assms, of md5 svc env w] by auto

text \<open>
  C10 at a text file submitted after the first upload of the concrete run: the request is
  rejected with \<open>INVALID_FORMAT\<close> and the world is returned as it was.
\<close>

theorem rejected_upload_changes_nothing_witness:
  "rejected_upload (Some \<lparr>filename = Some ''notes.txt'', content = ''hello''\<rparr>) \<and>
   upload_image example_md5 working_services first_env
       (Some \<lparr>filename = Some ''notes.txt'', content = ''hello''\<rparr>) world_uploaded =
     (world_uploaded, Failure 400 ''INVALID_FORMAT'')"
proof -
  have r: "rejected_upload (Some \<lparr>filename = Some ''notes.txt'', content = ''hello''\<rparr>)"
    by (simp add: rejected_upload_def lower_def path_suffix_def path_name_def rfind_dot_def
        ascii_lower_def allowed_extensions_def)
  have c: "lower (path_suffix ''notes.txt'') \<notin> allowed_extensions"
    by (simp add: lower_def path_suffix_def path_name_def rfind_dot_def
        ascii_lower_def allowed_extensions_def)
  show ?thesis
    using r c rejected_upload_changes_nothing[OF r, of example_md5 working_services first_env
        world_uploaded]
    by (simp add: upload_image_invalid_format)
qed

text \<open>
  C3. For every session and every selection index outside the range
  \<open>[0, len(variations))\<close>, the select-avatar operation fails with status 400 and the code
  \<open>INVALID_INDEX\<close> and returns the world as it was: no field of the session (or of any
  other session) is changed, and no generator is called.
\<close>

theorem select_avatar_index_out_of_range:
  assumes "user_sessions w sid = Some s" and "sid \<noteq> []"
    and "i < 0 \<or> int (length (case sess_variations s of Some vs \<Rightarrow> vs | None \<Rightarrow> [])) \<le> i"
  shows "select_avatar svc expression_prompts now
           (Some \<lparr>rd_session_id = Some sid, rd_selected_index = Some (IndexInt i)\<rparr>) w =
         (w, Failure 400 ''INVALID_INDEX'')"
  using assms by (auto simp: select_avatar_def Let_def)


section \<open>Properties of deduplication\<close>

subsection \<open>Directory operations\<close>

lemma find_filter:
  "find P xs = (case filter P xs of [] \<Rightarrow> None | x # ys \<Rightarrow> Some x)"
  by (induction xs) simp_all

lemma filter_take_drop: "filter Q (take k xs) @ filter Q (drop k xs) = filter Q xs"
  by (metis append_take_drop_id filter_append)

lemma set_take_drop: "set (take k xs) \<union> set (drop k xs) = set xs"
  by (metis append_take_drop_id set_append)

lemma map_of_take_drop: "map_of (drop k xs) ++ map_of (take k xs) = map_of xs"
  by (metis append_take_drop_id map_of_append)

lemma filter_insert_at_skip:
  "\<not> Q x \<Longrightarrow> filter Q (insert_at k x xs) = filter Q xs"
  by (simp add: insert_at_def filter_take_drop)

lemma filter_insert_at_only:
  assumes "Q x" and "filter Q xs = []"
  shows "filter Q (insert_at k x xs) = [x]"
proof -
  have "filter Q (take k xs) @ filter Q (drop k xs) = []"
    using assms(2) by (simp only: filter_take_drop)
  then show ?thesis
    using assms(1) by (simp add: insert_at_def)
qed

lemma set_insert_at: "set (insert_at k x xs) = insert x (set xs)"
  by (simp add: insert_at_def set_take_drop)

lemma map_of_insert_at_other:
  assumes "p \<noteq> t"
  shows "map_of (insert_at k (t, b) xs) p = map_of xs p"
proof -
  have "map_of (insert_at k (t, b) xs) p = (map_of (drop k xs) ++ map_of (take k xs)) p"
    using assms by (simp add: insert_at_def map_add_def split: option.split)
  then show ?thesis by (simp only: map_of_take_drop)
qed

lemma map_of_insert_at_new:
  assumes "t \<notin> fst ` set xs"
  shows "map_of (insert_at k (t, b) xs) t = Some b"
proof -
  have "t \<notin> fst ` set (take k xs)"
    using assms set_take_subset[of k xs] by auto
  then have "map_of (take k xs) t = None"
    by (simp add: map_of_eq_None_iff)
  then show ?thesis
    by (simp add: insert_at_def map_add_def)
qed

lemma map_of_filter_other:
  "R p \<Longrightarrow> map_of (filter (\<lambda>(q, d). R q) xs) p = map_of xs p"
  by (induction xs) auto

lemma map_of_save_file: "map_of (save_file files pos p c) p = Some c"
proof (cases "p \<in> set (map fst files)")
  case True
  have "p \<in> fst ` set xs \<Longrightarrow>
        map_of (map (\<lambda>(q, d). if q = p then (q, c) else (q, d)) xs) p = Some c" for xs
    by (induction xs) auto
  then show ?thesis using True by (simp add: save_file_def)
next
  case False
  then show ?thesis by (simp add: save_file_def map_of_insert_at_new)
qed

lemma calculate_file_md5_staged:
  "calculate_file_md5 md5 (save_file files pos p c) p = Some (md5 c)"
  by (simp add: calculate_file_md5_def map_of_save_file)

subsection \<open>Names of stored uploads\<close>

lemma split_slash_no_slash: "CHR ''/'' \<notin> set s \<Longrightarrow> split_slash s = [s]"
  by (induction s) auto

lemma split_slash_append:
  "CHR ''/'' \<notin> set a \<Longrightarrow> split_slash (a @ CHR ''/'' # b) = a # split_slash b"
  by (induction a) auto

lemma path_name_in_uploads:
  assumes "CHR ''/'' \<notin> set n" and "n \<noteq> []" and "n \<noteq> ''.''"
  shows "path_name (''uploads/'' @ n) = n"
proof -
  have "split_slash (''uploads'' @ CHR ''/'' # n) = ''uploads'' # split_slash n"
    by (rule split_slash_append) simp
  then have "split_slash (''uploads/'' @ n) = [''uploads'', n]"
    using assms(1) by (simp add: split_slash_no_slash)
  then show ?thesis
    using assms(2,3) by (simp add: path_name_def)
qed

lemma valid_uuid_chars:
  assumes "valid_uuid u"
  shows "CHR ''/'' \<notin> set u" and "CHR ''.'' \<notin> set u" and "length u = 36"
  using assms by (auto simp: valid_uuid_def)

lemma path_stem_stored_upload:
  assumes "valid_uuid u" and "ext \<in> allowed_extensions"
  shows "path_stem (''uploads/'' @ u @ ext) = u"
proof -
  note u = valid_uuid_chars[OF assms(1)]
  have u0: "u \<noteq> []" using u(3) by auto
  have ext: "CHR ''/'' \<notin> set ext"
    using assms(2) by (auto simp: allowed_extensions_def)
  have ne: "u @ ext \<noteq> ''.''"
  proof
    assume "u @ ext = ''.''"
    then have "length (u @ ext) = 1" by simp
    then show False using u(3) by simp
  qed
  have name: "path_name (''uploads/'' @ u @ ext) = u @ ext"
    using u(1) ext u0 ne by (intro path_name_in_uploads) auto
  have dot: "rfind_dot (u @ ext) = int (length u)"
    using assms(2) u(2) by (auto simp: allowed_extensions_def rfind_dot_def)
  have len: "int (length u) < int (length (u @ ext)) - 1"
    using assms(2) by (auto simp: allowed_extensions_def)
  show ?thesis
    unfolding path_stem_def Let_def name dot using u0 len by simp
qed


subsection \<open>The three outcomes of an accepted upload\<close>

lemma repair_stage_segment_calls:
  "filter is_segment_call (calls (repair_variations svc u orig m c)) =
     filter is_segment_call (calls c)"
  "filter is_segment_call (calls (repair_expressions svc u m c)) =
     filter is_segment_call (calls c)"
  "filter is_segment_call (calls (repair_personality svc u orig m c)) =
     filter is_segment_call (calls c)"
  by (simp_all add: repair_variations_def repair_expressions_def repair_personality_def Let_def
      split: sum.split option.split list.split)

lemma repair_no_segment_calls:
  assumes "''segmented_image'' \<notin> set (map fst m)"
  shows "filter is_segment_call (calls (complete_missing_preparation svc u orig m)) = []"
  using assms
  by (simp add: complete_missing_preparation_def repair_stage_segment_calls
      repair_segmented_def)

lemma report_never_lists_segmented:
  "''segmented_image'' \<notin> set (map fst (fst (check_preparation_completeness fs u p)))"
  by (simp add: report_keys)

lemma upload_image_md5_empty:
  assumes "filename upl = Some n" and "n \<noteq> []"
    and "lower (path_suffix n) \<in> allowed_extensions"
    and "md5 (content upl) = []"
  shows "snd (upload_image md5 svc env (Some upl) w) = Failure 500 ''FILE_PROCESSING_ERROR''"
  using assms by (simp add: upload_image_def Let_def calculate_file_md5_staged)

lemma upload_image_duplicate:
  assumes "filename upl = Some n" and "n \<noteq> []"
    and "lower (path_suffix n) \<in> allowed_extensions"
    and "md5 (content upl) \<noteq> []"
    and "find_existing_image_by_md5 md5
           (save_file (uploads w) (ue_save_pos env) (staging_path (ue_image_uuid env) n)
              (content upl))
           (md5 (content upl)) (staging_path (ue_image_uuid env) n) = Some p"
  shows "(\<exists>s. user_sessions (fst (upload_image md5 svc env (Some upl) w)) (ue_session_id env)
               = Some s \<and> sess_image_uuid s = path_stem p) \<and>
         filter is_segment_call (gen_calls (fst (upload_image md5 svc env (Some upl) w))) =
           filter is_segment_call (gen_calls w) \<and>
         \<not> is_failure (snd (upload_image md5 svc env (Some upl) w))"
proof (cases "length (fst (check_preparation_completeness (generated w) (path_stem p) p)) = 0")
  case True
  then show ?thesis
    using assms
    by (simp add: upload_image_def Let_def calculate_file_md5_staged staging_path_def)
next
  case False
  then show ?thesis
    using assms
      repair_no_segment_calls[OF report_never_lists_segmented[of "generated w" "path_stem p" p],
        of svc "path_stem p" p]
    by (simp add: upload_image_def Let_def calculate_file_md5_staged staging_path_def)
qed

lemma upload_image_new:
  assumes "filename upl = Some n" and "n \<noteq> []"
    and "lower (path_suffix n) \<in> allowed_extensions"
    and "md5 (content upl) \<noteq> []"
    and "find_existing_image_by_md5 md5
           (save_file (uploads w) (ue_save_pos env) (staging_path (ue_image_uuid env) n)
              (content upl))
           (md5 (content upl)) (staging_path (ue_image_uuid env) n) = None"
  shows "uploads (fst (upload_image md5 svc env (Some upl) w)) =
           rename_file
             (save_file (uploads w) (ue_save_pos env) (staging_path (ue_image_uuid env) n)
                (content upl))
             (ue_rename_pos env) (staging_path (ue_image_uuid env) n)
             (''uploads/'' @ ue_image_uuid env @ lower (path_suffix n)) (content upl)"
    and "\<exists>s. user_sessions (fst (upload_image md5 svc env (Some upl) w)) (ue_session_id env)
               = Some s \<and> sess_image_uuid s = ue_image_uuid env"
  using assms
  by (simp_all add: upload_image_def Let_def calculate_file_md5_staged staging_path_def)

lemma upload_image_duplicate_uploads:
  assumes "filename upl = Some n" and "n \<noteq> []"
    and "lower (path_suffix n) \<in> allowed_extensions"
    and "md5 (content upl) \<noteq> []"
    and "find_existing_image_by_md5 md5
           (save_file (uploads w) (ue_save_pos env) (staging_path (ue_image_uuid env) n)
              (content upl))
           (md5 (content upl)) (staging_path (ue_image_uuid env) n) = Some p"
  shows "uploads (fst (upload_image md5 svc env (Some upl) w)) =
           unlink
             (save_file (uploads w) (ue_save_pos env) (staging_path (ue_image_uuid env) n)
                (content upl))
             (staging_path (ue_image_uuid env) n)"
  using assms
  by (cases "length (fst (check_preparation_completeness (generated w) (path_stem p) p)) = 0")
     (simp_all add: upload_image_def Let_def calculate_file_md5_staged staging_path_def)


subsection \<open>What the next scan of the directory finds\<close>

lemma find_existing_by_filter:
  "find_existing_image_by_md5 md5 files h t =
     (case filter (\<lambda>(q, d). calculate_file_md5 md5 files q = Some h \<and> q \<noteq> t) files of
        [] \<Rightarrow> None
      | x # xs \<Rightarrow> Some (fst x))"
  by (simp add: find_existing_image_by_md5_def find_filter split: list.split)

lemma find_after_duplicate:
  assumes fresh: "t2 \<notin> fst ` set (unlink files1 t1)"
  shows "find_existing_image_by_md5 md5 (save_file (unlink files1 t1) pos t2 b) h t2 =
         find_existing_image_by_md5 md5 files1 h t1"
proof -
  let ?D = "unlink files1 t1"
  let ?F = "insert_at pos (t2, b) ?D"
  let ?Q = "\<lambda>(q, d). calculate_file_md5 md5 ?F q = Some h \<and> q \<noteq> t2"
  let ?P = "\<lambda>(q, d). calculate_file_md5 md5 files1 q = Some h \<and> q \<noteq> t1"
  have save: "save_file ?D pos t2 b = ?F"
    using fresh by (simp add: save_file_def)
  have skip: "filter ?Q ?F = filter ?Q ?D"
    by (rule filter_insert_at_skip) simp
  have same: "((\<lambda>(q, d). q \<noteq> t1) x \<and> ?Q x) = ?P x" if "x \<in> set files1" for x
  proof (cases x)
    case (Pair q d)
    show ?thesis
    proof (cases "q = t1")
      case True
      then show ?thesis by (simp add: Pair)
    next
      case False
      then have "(q, d) \<in> set ?D"
        using that Pair by (simp add: unlink_def)
      then have "q \<in> fst ` set ?D" by force
      then have q2: "q \<noteq> t2" using fresh by auto
      have "map_of ?F q = map_of ?D q"
        using q2 by (rule map_of_insert_at_other)
      also have "\<dots> = map_of files1 q"
        unfolding unlink_def using False by (rule map_of_filter_other)
      finally show ?thesis
        using False q2 by (simp add: Pair calculate_file_md5_def)
    qed
  qed
  have "filter ?Q ?D = filter (\<lambda>x. (\<lambda>(q, d). q \<noteq> t1) x \<and> ?Q x) files1"
    by (simp add: unlink_def)
  also have "\<dots> = filter ?P files1"
    using same by (intro filter_cong refl) blast
  finally have "filter ?Q ?F = filter ?P files1"
    using skip by simp
  then show ?thesis
    unfolding save find_existing_by_filter by simp
qed

lemma find_after_new:
  assumes none: "find_existing_image_by_md5 md5 files1 (md5 b) t1 = None"
    and fresh: "t2 \<notin> fst ` set (rename_file files1 rpos t1 up b)"
  shows "find_existing_image_by_md5 md5
           (save_file (rename_file files1 rpos t1 up b) pos t2 b) (md5 b) t2 = Some up"
proof -
  let ?E = "filter (\<lambda>(q, d). q \<noteq> t1 \<and> q \<noteq> up) files1"
  let ?D = "insert_at rpos (up, b) ?E"
  let ?F = "insert_at pos (t2, b) ?D"
  let ?Q = "\<lambda>(q, d). calculate_file_md5 md5 ?F q = Some (md5 b) \<and> q \<noteq> t2"
  have D: "rename_file files1 rpos t1 up b = ?D"
    by (simp add: rename_file_def)
  have fresh': "t2 \<notin> fst ` set ?D"
    using fresh unfolding D .
  have save: "save_file ?D pos t2 b = ?F"
    using fresh' by (simp add: save_file_def)
  have up2: "up \<noteq> t2"
    using fresh' by (auto simp: set_insert_at)
  have no_match: "\<not> (calculate_file_md5 md5 files1 q = Some (md5 b) \<and> q \<noteq> t1)"
    if "(q, d) \<in> set files1" for q d
    using none that
    by (auto simp: find_existing_image_by_md5_def find_None_iff)
  have upE: "up \<notin> fst ` set ?E" by auto
  have "map_of ?F up = map_of ?D up"
    using up2 by (rule map_of_insert_at_other)
  also have "\<dots> = Some b"
    using upE by (rule map_of_insert_at_new)
  finally have Qup: "?Q (up, b)"
    using up2 by (simp add: calculate_file_md5_def)
  have QE: "\<not> ?Q x" if "x \<in> set ?E" for x
  proof (cases x)
    case (Pair q d)
    have q: "q \<noteq> t1 \<and> q \<noteq> up" and mem: "(q, d) \<in> set files1"
      using that Pair by auto
    have "x \<in> set ?D" using that by (simp add: set_insert_at)
    then have "q \<in> fst ` set ?D" using Pair by force
    then have q2: "q \<noteq> t2" using fresh' by auto
    have "map_of ?F q = map_of ?D q"
      using q2 by (rule map_of_insert_at_other)
    also have "\<dots> = map_of ?E q"
      using q by (intro map_of_insert_at_other) simp
    also have "\<dots> = map_of files1 q"
      using q by (intro map_of_filter_other) simp
    finally show ?thesis
      using no_match[OF mem] q by (simp add: Pair calculate_file_md5_def)
  qed
  have "filter ?Q ?F = filter ?Q ?D"
    by (rule filter_insert_at_skip) simp
  also have "\<dots> = [(up, b)]"
  proof (rule filter_insert_at_only)
    show "?Q (up, b)" by (rule Qup)
    show "filter ?Q ?E = []"
      using QE by (simp only: filter_empty_conv) blast
  qed
  finally show ?thesis
    unfolding D save find_existing_by_filter by simp
qed


subsection \<open>Uploading the same bytes twice\<close>

lemma accepted_upload_request:
  assumes "\<not> is_failure (snd (upload_image md5 svc env (Some upl) w))"
  obtains n where "filename upl = Some n" and "n \<noteq> []"
    and "lower (path_suffix n) \<in> allowed_extensions" and "md5 (content upl) \<noteq> []"
proof (cases "filename upl")
  case None
  then have "upload_image md5 svc env (Some upl) w = (w, Failure 400 ''INVALID_FORMAT'')"
    by (intro upload_image_invalid_format) (simp_all add: path_suffix_empty empty_not_allowed)
  then show ?thesis using assms by simp
next
  case (Some n)
  have 1: "n \<noteq> []"
    using assms Some upload_image_empty_filename[of upl md5 svc env w] by auto
  have 2: "lower (path_suffix n) \<in> allowed_extensions"
  proof (rule ccontr)
    assume "lower (path_suffix n) \<notin> allowed_extensions"
    then have "upload_image md5 svc env (Some upl) w = (w, Failure 400 ''INVALID_FORMAT'')"
      using Some 1 by (intro upload_image_invalid_format) simp_all
    then show False using assms by simp
  qed
  have 3: "md5 (content upl) \<noteq> []"
    using assms upload_image_md5_empty[OF Some 1 2, of md5 svc env w] by auto
  show ?thesis using that Some 1 2 3 by blast
qed

text \<open>
  C5. Let a first upload of some bytes succeed, creating a session for the avatar identity
  it resolved or minted (a \<open>uuid4\<close> string). Let the same bytes be submitted again, under
  any accepted file name, in any later world whose uploads directory is the one the first
  upload left behind, the staging name of the second upload being new in that directory.
  Then the second upload succeeds, its session carries the same avatar identity as the
  session of the first upload, and it makes no segmentation call.
\<close>

theorem identical_bytes_reuse_identity:
  assumes first_ok: "\<not> is_failure (snd (upload_image md5 svc1 env1 (Some upl1) w0))"
    and uuid1: "valid_uuid (ue_image_uuid env1)"
    and later: "uploads w1 = uploads (fst (upload_image md5 svc1 env1 (Some upl1) w0))"
    and bytes: "content upl2 = content upl1"
    and name2: "filename upl2 = Some n2" "n2 \<noteq> []"
               "lower (path_suffix n2) \<in> allowed_extensions"
    and fresh2: "staging_path (ue_image_uuid env2) n2 \<notin> fst ` set (uploads w1)"
  shows "\<exists>s1 s2.
           user_sessions (fst (upload_image md5 svc1 env1 (Some upl1) w0)) (ue_session_id env1)
             = Some s1 \<and>
           user_sessions (fst (upload_image md5 svc2 env2 (Some upl2) w1)) (ue_session_id env2)
             = Some s2 \<and>
           sess_image_uuid s2 = sess_image_uuid s1 \<and>
           filter is_segment_call (gen_calls (fst (upload_image md5 svc2 env2 (Some upl2) w1))) =
             filter is_segment_call (gen_calls w1) \<and>
           \<not> is_failure (snd (upload_image md5 svc2 env2 (Some upl2) w1))"
proof -
  obtain n1 where name1: "filename upl1 = Some n1" "n1 \<noteq> []"
      "lower (path_suffix n1) \<in> allowed_extensions"
    and digest: "md5 (content upl1) \<noteq> []"
    using accepted_upload_request[OF first_ok] by blast
  let ?b = "content upl1"
  let ?t1 = "staging_path (ue_image_uuid env1) n1"
  let ?t2 = "staging_path (ue_image_uuid env2) n2"
  let ?files1 = "save_file (uploads w0) (ue_save_pos env1) ?t1 ?b"
  let ?w = "fst (upload_image md5 svc1 env1 (Some upl1) w0)"
  have digest2: "md5 (content upl2) \<noteq> []"
    using digest bytes by simp
  show ?thesis
  proof (cases "find_existing_image_by_md5 md5 ?files1 (md5 ?b) ?t1")
    case None
    let ?up = "''uploads/'' @ ue_image_uuid env1 @ lower (path_suffix n1)"
    have dir: "uploads ?w = rename_file ?files1 (ue_rename_pos env1) ?t1 ?up ?b"
      by (rule upload_image_new(1)[OF name1 digest None])
    obtain s1 where s1: "user_sessions ?w (ue_session_id env1) = Some s1"
        "sess_image_uuid s1 = ue_image_uuid env1"
      using upload_image_new(2)[OF name1 digest None, of svc1] by blast
    have fresh: "?t2 \<notin> fst ` set (rename_file ?files1 (ue_rename_pos env1) ?t1 ?up ?b)"
      using fresh2 later dir by simp
    have "find_existing_image_by_md5 md5
            (save_file (rename_file ?files1 (ue_rename_pos env1) ?t1 ?up ?b)
               (ue_save_pos env2) ?t2 ?b) (md5 ?b) ?t2 = Some ?up"
      by (rule find_after_new[OF None fresh])
    then have found: "find_existing_image_by_md5 md5
            (save_file (uploads w1) (ue_save_pos env2) ?t2 (content upl2))
            (md5 (content upl2)) ?t2 = Some ?up"
      using later dir bytes by simp
    have stem: "path_stem ?up = ue_image_uuid env1"
      by (rule path_stem_stored_upload[OF uuid1 name1(3)])
    show ?thesis
      using upload_image_duplicate[OF name2 digest2 found, of svc2] s1 stem by auto
  next
    case (Some p)
    have dir: "uploads ?w = unlink ?files1 ?t1"
      by (rule upload_image_duplicate_uploads[OF name1 digest Some])
    obtain s1 where s1: "user_sessions ?w (ue_session_id env1) = Some s1"
        "sess_image_uuid s1 = path_stem p"
      using upload_image_duplicate[OF name1 digest Some, of svc1] by blast
    have fresh: "?t2 \<notin> fst ` set (unlink ?files1 ?t1)"
      using fresh2 later dir by simp
    have "find_existing_image_by_md5 md5
            (save_file (unlink ?files1 ?t1) (ue_save_pos env2) ?t2 ?b) (md5 ?b) ?t2 = Some p"
      using find_after_duplicate[OF fresh, of md5 "ue_save_pos env2" ?b "md5 ?b"] Some
      by simp
    then have found: "find_existing_image_by_md5 md5
            (save_file (uploads w1) (ue_save_pos env2) ?t2 (content upl2))
            (md5 (content upl2)) ?t2 = Some p"
      using later dir bytes by simp
    show ?thesis
      using upload_image_duplicate[OF name2 digest2 found, of svc2] s1 by auto
  qed
qed


subsection \<open>The concrete run\<close>

lemmas path_defs =
  lower_def path_suffix_def path_stem_def path_name_def rfind_dot_def ascii_lower_def
  allowed_extensions_def

lemma first_upload_result:
  "upload_image example_md5 working_services first_env (Some photo) empty_world =
     (\<lparr>uploads =
         [(''uploads/11111111-1111-4111-8111-111111111111.jpg'', ''bytes of the photo'')],
       generated = {},
       user_sessions = [''s1'' \<mapsto> session_uploaded],
       gen_calls = [SegmentCall ''uploads/11111111-1111-4111-8111-111111111111.jpg'']\<rparr>,
      UploadNewImage ''s1'' ''uploads/11111111-1111-4111-8111-111111111111.jpg''
        ''temp/processing/segmented_uploads/11111111-1111-4111-8111-111111111111.jpg'')"
  by (simp add: upload_image_def photo_def first_env_def empty_world_def
      example_md5_def working_services_def path_defs Let_def save_file_def insert_at_def
      calculate_file_md5_def find_existing_image_by_md5_def rename_file_def
      session_uploaded_def)

lemma world_uploaded_session:
  "user_sessions world_uploaded ''s1'' = Some session_uploaded"
  by (simp add: world_uploaded_def first_upload_result)

lemma world_uploaded_uploads:
  "uploads world_uploaded =
     [(''uploads/11111111-1111-4111-8111-111111111111.jpg'', ''bytes of the photo'')]"
  by (simp add: world_uploaded_def first_upload_result)

lemma world_variations_session:
  "user_sessions world_variations ''s1'' =
     Some (session_uploaded
       \<lparr>sess_variations := Some (variation_files ''11111111-1111-4111-8111-111111111111''),
        sess_status := VariationsReady, sess_step := StepVariationsGenerated,
        sess_variations_count := Some 4\<rparr>)"
  by (simp add: world_variations_def generate_avatar_variations_def session_request_def
      world_uploaded_session working_services_def session_uploaded_def variation_files_def
      Let_def)

lemma world_selected_session:
  "\<exists>s. user_sessions world_selected ''s1'' = Some s \<and> sess_status s = Ready \<and>
       sess_image_uuid s = ''11111111-1111-4111-8111-111111111111'' \<and>
       sess_segmented_image s = sess_segmented_image session_uploaded"
  by (simp add: world_selected_def select_avatar_def selection_request_def
      world_variations_session working_services_def session_uploaded_def variation_files_def
      Let_def)

lemma world_regenerated_session:
  "\<exists>s. user_sessions world_regenerated ''s1'' = Some s \<and> sess_status s = VariationsReady"
proof -
  obtain s where s: "user_sessions world_selected ''s1'' = Some s"
    using world_selected_session by blast
  show ?thesis
    by (simp add: world_regenerated_def generate_avatar_variations_def session_request_def
        s working_services_def Let_def)
qed


subsection \<open>Sessions under the three operations\<close>

lemma generate_avatar_variations_uploads:
  "uploads (fst (generate_avatar_variations svc data w)) = uploads w"
  by (simp add: generate_avatar_variations_def Let_def split: option.split sum.split)

lemma select_avatar_uploads:
  "uploads (fst (select_avatar svc prompts now data w)) = uploads w"
  by (simp add: select_avatar_def Let_def split: option.split index_value.split)

lemma upload_image_other_session:
  assumes "ue_session_id env \<noteq> sid"
  shows "user_sessions (fst (upload_image md5 svc env files_image w)) sid = user_sessions w sid"
proof (cases "rejected_upload files_image")
  case True
  then show ?thesis
    using rejected_upload_result[OF True, of md5 svc env w] by auto
next
  case False
  then obtain upl n where u: "files_image = Some upl" "filename upl = Some n" "n \<noteq> []"
      "lower (path_suffix n) \<in> allowed_extensions"
    by (auto simp: rejected_upload_def split: option.splits)
  show ?thesis
    using assms u
    by (simp add: upload_image_def Let_def calculate_file_md5_staged
        split: option.split)
qed

lemma select_avatar_session:
  assumes "user_sessions w sid = Some s"
  shows "\<exists>s'. user_sessions (fst (select_avatar svc prompts now data w)) sid = Some s' \<and>
              (sess_status s' = sess_status s \<or> sess_status s' = Ready)"
  using assms
  by (auto simp: select_avatar_def Let_def split: option.split index_value.split)

lemma generate_avatar_variations_session:
  assumes "user_sessions w sid = Some s"
  shows "\<exists>s'. user_sessions (fst (generate_avatar_variations svc data w)) sid = Some s' \<and>
              (sess_status s' = sess_status s \<or> sess_status s' = GeneratingVariations \<or>
               sess_status s' = VariationsReady)"
  using assms
  by (auto simp: generate_avatar_variations_def Let_def split: option.split sum.split)

lemma rank_at_most_ready: "status_rank st \<le> status_rank Ready"
  by (cases st) simp_all


subsection \<open>Claims about the session state machine\<close>

text \<open>
  C3 in the concrete run: the session has four variations, and selecting index 4 is
  rejected without any change.
\<close>

theorem select_avatar_index_out_of_range_witness:
  "user_sessions world_variations ''s1'' \<noteq> None \<and>
   select_avatar working_services example_prompts 3000 (selection_request ''s1'' 4)
       world_variations =
     (world_variations, Failure 400 ''INVALID_INDEX'')"
  using select_avatar_index_out_of_range
    [OF world_variations_session, of 4 working_services example_prompts 3000]
  by (simp add: world_variations_session selection_request_def variation_files_def)

text \<open>
  C4 (as stated, refuted). A session is uploaded, gets its variations, and reaches \<open>ready\<close>
  by selecting variation 0; invoking generate-variations again on that session sets its
  status back from \<open>ready\<close> to \<open>variations_ready\<close>.
\<close>

theorem status_regression_counterexample:
  "map_option sess_status (user_sessions world_uploaded ''s1'') = Some Uploaded \<and>
   map_option sess_status (user_sessions world_variations ''s1'') = Some VariationsReady \<and>
   map_option sess_status (user_sessions world_selected ''s1'') = Some Ready \<and>
   map_option sess_status (user_sessions world_regenerated ''s1'') = Some VariationsReady \<and>
   status_rank VariationsReady < status_rank Ready"
proof -
  obtain s3 where s3: "user_sessions world_selected ''s1'' = Some s3" "sess_status s3 = Ready"
    using world_selected_session by blast
  obtain s4 where s4: "user_sessions world_regenerated ''s1'' = Some s4"
      "sess_status s4 = VariationsReady"
    using world_regenerated_session by blast
  show ?thesis
    by (simp add: world_uploaded_session world_variations_session s3 s4 session_uploaded_def)
qed

text \<open>
  C4 (amended). For every session: an upload under another (fresh) session id leaves the
  session as it is; select-avatar leaves its status unchanged (a rejected call) or sets
  it to \<open>ready\<close>, so it never moves the status backward; generate-variations leaves its
  status unchanged (a rejected call) or sets it to \<open>generating_variations\<close> (the generator
  raised) or \<open>variations_ready\<close>, whatever the status was before, which is a move forward
  along uploaded, generatingVariations, variationsReady, processingSelection, ready
  whenever the session was still at \<open>uploaded\<close> or \<open>generating_variations\<close>.
\<close>

theorem status_moves_forward:
  assumes "user_sessions w sid = Some s"
  shows "(ue_session_id env \<noteq> sid \<longrightarrow>
            user_sessions (fst (upload_image md5 svc env files_image w)) sid = Some s) \<and>
         (\<exists>s'. user_sessions (fst (select_avatar svc prompts now data w)) sid = Some s' \<and>
               (sess_status s' = sess_status s \<or> sess_status s' = Ready) \<and>
               status_rank (sess_status s) \<le> status_rank (sess_status s')) \<and>
         (\<exists>s'. user_sessions (fst (generate_avatar_variations svc data w)) sid = Some s' \<and>
               (sess_status s' = sess_status s \<or> sess_status s' = GeneratingVariations \<or>
                sess_status s' = VariationsReady) \<and>
               (status_rank (sess_status s) \<le> status_rank GeneratingVariations \<longrightarrow>
                  status_rank (sess_status s) \<le> status_rank (sess_status s')))"
proof -
  have 1: "ue_session_id env \<noteq> sid \<longrightarrow>
            user_sessions (fst (upload_image md5 svc env files_image w)) sid = Some s"
    using assms upload_image_other_session[of env sid md5 svc files_image w] by simp
  obtain s2 where s2: "user_sessions (fst (select_avatar svc prompts now data w)) sid = Some s2"
      "sess_status s2 = sess_status s \<or> sess_status s2 = Ready"
    using select_avatar_session[OF assms] by blast
  have r2: "status_rank (sess_status s) \<le> status_rank (sess_status s2)"
    using s2(2) rank_at_most_ready[of "sess_status s"] by auto
  obtain s3 where s3:
      "user_sessions (fst (generate_avatar_variations svc data w)) sid = Some s3"
      "sess_status s3 = sess_status s \<or> sess_status s3 = GeneratingVariations \<or>
       sess_status s3 = VariationsReady"
    using generate_avatar_variations_session[OF assms] by blast
  have r3: "status_rank (sess_status s) \<le> status_rank GeneratingVariations \<longrightarrow>
            status_rank (sess_status s) \<le> status_rank (sess_status s3)"
    using s3(2) by auto
  show ?thesis using 1 s2 r2 s3 r3 by blast
qed

text \<open>
  C4 (amended) in the concrete run: the second upload leaves the session of the first one
  as it is, and generating the variations of the uploaded session moves it forward.
\<close>

theorem status_moves_forward_witness:
  "user_sessions world_uploaded ''s1'' = Some session_uploaded \<and>
   ue_session_id second_env \<noteq> ''s1'' \<and>
   status_rank (sess_status session_uploaded) \<le> status_rank GeneratingVariations \<and>
   user_sessions
     (fst (upload_image example_md5 working_services second_env (Some photo) world_uploaded))
     ''s1'' = Some session_uploaded \<and>
   (\<exists>s'. user_sessions world_variations ''s1'' = Some s' \<and>
         status_rank (sess_status session_uploaded) \<le> status_rank (sess_status s'))"
proof -
  have a: "ue_session_id second_env \<noteq> ''s1''"
    by (simp add: second_env_def)
  have b: "status_rank (sess_status session_uploaded) \<le> status_rank GeneratingVariations"
    by (simp add: session_uploaded_def)
  show ?thesis
    using a b world_uploaded_session
      status_moves_forward[OF world_uploaded_session, of second_env example_md5
        working_services "Some photo" example_prompts 3000 "session_request ''s1''"]
    unfolding world_variations_def by blast
qed

subsection \<open>The second upload of the photo\<close>

text \<open>
  C5 in the concrete run: the photo is uploaded again after its session reached
  \<open>ready\<close>; the new session carries the identity of the first one, and no segmentation
  call is added.
\<close>

theorem identical_bytes_reuse_identity_witness:
  "\<not> is_failure (snd (upload_image example_md5 working_services first_env (Some photo)
        empty_world)) \<and>
   valid_uuid (ue_image_uuid first_env) \<and>
   uploads world_selected = uploads world_uploaded \<and>
   staging_path (ue_image_uuid second_env) ''photo.JPG'' \<notin> fst ` set (uploads world_selected) \<and>
   map_option sess_image_uuid (user_sessions world_uploaded ''s1'') =
     Some ''11111111-1111-4111-8111-111111111111'' \<and>
   (\<exists>s2. user_sessions
            (fst (upload_image example_md5 working_services second_env (Some photo)
                    world_selected)) ''s2'' = Some s2 \<and>
         sess_image_uuid s2 = ''11111111-1111-4111-8111-111111111111'') \<and>
   filter is_segment_call
     (gen_calls (fst (upload_image example_md5 working_services second_env (Some photo)
                        world_selected))) =
     filter is_segment_call (gen_calls world_selected)"
proof -
  have ok: "\<not> is_failure (snd (upload_image example_md5 working_services first_env
              (Some photo) empty_world))"
    by (simp add: first_upload_result)
  have uuid: "valid_uuid (ue_image_uuid first_env)"
    by (simp add: first_env_def valid_uuid_def)
  have dir: "uploads world_selected = uploads world_uploaded"
    by (simp add: world_selected_def world_variations_def select_avatar_uploads
        generate_avatar_variations_uploads)
  have later: "uploads world_selected =
      uploads (fst (upload_image example_md5 working_services first_env (Some photo)
                      empty_world))"
    using dir by (simp add: world_uploaded_def)
  have name: "filename photo = Some ''photo.JPG''" "''photo.JPG'' \<noteq> []"
      "lower (path_suffix ''photo.JPG'') \<in> allowed_extensions"
    by (simp_all add: photo_def path_defs)
  have fresh: "staging_path (ue_image_uuid second_env) ''photo.JPG''
                 \<notin> fst ` set (uploads world_selected)"
    by (simp add: dir world_uploaded_uploads staging_path_def second_env_def path_defs)
  have s1: "map_option sess_image_uuid (user_sessions world_uploaded ''s1'') =
              Some ''11111111-1111-4111-8111-111111111111''"
    by (simp add: world_uploaded_session session_uploaded_def)
  have sid: "ue_session_id first_env = ''s1''" "ue_session_id second_env = ''s2''"
    by (simp_all add: first_env_def second_env_def)
  show ?thesis
    using identical_bytes_reuse_identity[OF ok uuid later refl name fresh,
        of working_services]
      ok uuid dir fresh s1
    unfolding sid world_uploaded_def[symmetric]
    by auto
qed


end
